theory Spec2Isabelle
  imports Main "HOL-Library.Word" "HOL-Library.Monad_Syntax"
begin

unbundle bit_operations_syntax

section \<open>ktls-utils: the handshake-to-kernel-offload bridge of tlshd\<close>

text \<open>
  A shallow embedding of \<^verbatim>\<open>src/tlshd/ktls.c\<close> and \<^verbatim>\<open>src/tlshd/server.c\<close>.
  The C code talks to three collaborators that are not part of the repository: the GnuTLS
  library, the Linux kernel (socket options, the keyring) and the build configuration
  (\<^verbatim>\<open>config.h\<close>, the macros of \<^verbatim>\<open>linux/tls.h\<close>). Each of them is an explicit
  parameter of the model: what the library reports about a session is a field of the
  session record, what the kernel answers to a socket option is an oracle that sees the
  calls made so far, and every \<^verbatim>\<open>#if defined\<close> is a boolean of the build record.
  The calls the program makes to the outside are appended to a trace, so that
  "no socket-option call occurs" or "the session is created before the key search" are
  statements about a list of events.

  The \<^verbatim>\<open>tlshd_log_*\<close> calls write diagnostics only; they take no part in the control
  flow and are left out of the model.
\<close>

subsection \<open>Constants of the external headers\<close>

type_synonym byte = "8 word"

text \<open>Enumerators of \<^verbatim>\<open>gnutls_cipher_algorithm_t\<close> the program names; any other
  enumerator is \<open>GNUTLS_CIPHER_OTHER\<close> with its number.\<close>

datatype gnutls_cipher_algorithm_t =
    GNUTLS_CIPHER_AES_128_GCM
  | GNUTLS_CIPHER_AES_256_GCM
  | GNUTLS_CIPHER_AES_128_CCM
  | GNUTLS_CIPHER_CHACHA20_POLY1305
  | GNUTLS_CIPHER_OTHER nat

datatype gnutls_protocol_t =
    GNUTLS_SSL3 | GNUTLS_TLS1_0 | GNUTLS_TLS1_1 | GNUTLS_TLS1_2 | GNUTLS_TLS1_3
  | GNUTLS_VERSION_UNKNOWN

definition GNUTLS_E_SUCCESS :: int where "GNUTLS_E_SUCCESS = 0"
definition GNUTLS_E_CERTIFICATE_ERROR :: int where "GNUTLS_E_CERTIFICATE_ERROR = - 43"
definition GNUTLS_E_NO_CERTIFICATE_FOUND :: int where "GNUTLS_E_NO_CERTIFICATE_FOUND = - 49"
definition GNUTLS_E_UNIMPLEMENTED_FEATURE :: int where "GNUTLS_E_UNIMPLEMENTED_FEATURE = - 1250"

definition GNUTLS_KTLS_RECV :: int where "GNUTLS_KTLS_RECV = 1"
definition GNUTLS_KTLS_SEND :: int where "GNUTLS_KTLS_SEND = 2"
definition GNUTLS_KTLS_DUPLEX :: int where "GNUTLS_KTLS_DUPLEX = 3"

definition GNUTLS_E_INSUFFICIENT_CREDENTIALS :: int where
  "GNUTLS_E_INSUFFICIENT_CREDENTIALS = - 32"

definition EIO :: int where "EIO = 5"

text \<open>\<^verbatim>\<open>linux/tls.h\<close>: version and cipher tags, and the field sizes of the four
  \<^verbatim>\<open>tls12_crypto_info_*\<close> structures.\<close>

definition TLS_1_2_VERSION :: "16 word" where "TLS_1_2_VERSION = 0x0303"
definition TLS_1_3_VERSION :: "16 word" where "TLS_1_3_VERSION = 0x0304"

definition TLS_CIPHER_AES_GCM_128 :: "16 word" where "TLS_CIPHER_AES_GCM_128 = 51"
definition TLS_CIPHER_AES_GCM_128_IV_SIZE :: nat where "TLS_CIPHER_AES_GCM_128_IV_SIZE = 8"
definition TLS_CIPHER_AES_GCM_128_KEY_SIZE :: nat where "TLS_CIPHER_AES_GCM_128_KEY_SIZE = 16"
definition TLS_CIPHER_AES_GCM_128_SALT_SIZE :: nat where "TLS_CIPHER_AES_GCM_128_SALT_SIZE = 4"
definition TLS_CIPHER_AES_GCM_128_REC_SEQ_SIZE :: nat where "TLS_CIPHER_AES_GCM_128_REC_SEQ_SIZE = 8"

definition TLS_CIPHER_AES_GCM_256 :: "16 word" where "TLS_CIPHER_AES_GCM_256 = 52"
definition TLS_CIPHER_AES_GCM_256_IV_SIZE :: nat where "TLS_CIPHER_AES_GCM_256_IV_SIZE = 8"
definition TLS_CIPHER_AES_GCM_256_KEY_SIZE :: nat where "TLS_CIPHER_AES_GCM_256_KEY_SIZE = 32"
definition TLS_CIPHER_AES_GCM_256_SALT_SIZE :: nat where "TLS_CIPHER_AES_GCM_256_SALT_SIZE = 4"
definition TLS_CIPHER_AES_GCM_256_REC_SEQ_SIZE :: nat where "TLS_CIPHER_AES_GCM_256_REC_SEQ_SIZE = 8"

definition TLS_CIPHER_AES_CCM_128 :: "16 word" where "TLS_CIPHER_AES_CCM_128 = 53"
definition TLS_CIPHER_AES_CCM_128_IV_SIZE :: nat where "TLS_CIPHER_AES_CCM_128_IV_SIZE = 8"
definition TLS_CIPHER_AES_CCM_128_KEY_SIZE :: nat where "TLS_CIPHER_AES_CCM_128_KEY_SIZE = 16"
definition TLS_CIPHER_AES_CCM_128_SALT_SIZE :: nat where "TLS_CIPHER_AES_CCM_128_SALT_SIZE = 4"
definition TLS_CIPHER_AES_CCM_128_REC_SEQ_SIZE :: nat where "TLS_CIPHER_AES_CCM_128_REC_SEQ_SIZE = 8"

definition TLS_CIPHER_CHACHA20_POLY1305 :: "16 word" where "TLS_CIPHER_CHACHA20_POLY1305 = 54"
definition TLS_CIPHER_CHACHA20_POLY1305_IV_SIZE :: nat where "TLS_CIPHER_CHACHA20_POLY1305_IV_SIZE = 12"
definition TLS_CIPHER_CHACHA20_POLY1305_KEY_SIZE :: nat where "TLS_CIPHER_CHACHA20_POLY1305_KEY_SIZE = 32"
definition TLS_CIPHER_CHACHA20_POLY1305_SALT_SIZE :: nat where "TLS_CIPHER_CHACHA20_POLY1305_SALT_SIZE = 0"
definition TLS_CIPHER_CHACHA20_POLY1305_REC_SEQ_SIZE :: nat where "TLS_CIPHER_CHACHA20_POLY1305_REC_SEQ_SIZE = 8"

subsection \<open>Build configuration\<close>

text \<open>One boolean for each macro the two files test with \<^verbatim>\<open>#ifdef\<close> or
  \<^verbatim>\<open>#if defined\<close>.\<close>

record build_config =
  HAVE_GNUTLS_TRANSPORT_IS_KTLS_ENABLED :: bool
  defined_TLS_CIPHER_AES_GCM_128 :: bool
  defined_TLS_CIPHER_AES_GCM_256 :: bool
  defined_TLS_CIPHER_AES_CCM_128 :: bool
  defined_TLS_CIPHER_CHACHA20_POLY1305 :: bool

subsection \<open>The kernel structure, socket options and the trace\<close>

text \<open>The four structures \<^verbatim>\<open>tls12_crypto_info_aes_gcm_128\<close>, \<^verbatim>\<open>..._aes_gcm_256\<close>,
  \<^verbatim>\<open>..._aes_ccm_128\<close> and \<^verbatim>\<open>..._chacha20_poly1305\<close> have the same fields in the same
  order and differ in the sizes of their arrays, so one record with byte lists stands for
  all four; \<open>ci_version\<close> and \<open>ci_cipher_type\<close> are the nested
  \<^verbatim>\<open>struct tls_crypto_info info\<close>.\<close>

record tls12_crypto_info =
  ci_version :: "16 word"
  ci_cipher_type :: "16 word"
  ci_iv :: "byte list"
  ci_key :: "byte list"
  ci_salt :: "byte list"
  ci_rec_seq :: "byte list"

datatype sock_level = SOL_TCP | SOL_TLS
datatype sock_optname = TCP_ULP | TLS_TX | TLS_RX
datatype sock_optval = Opt_string string | Opt_crypto_info tls12_crypto_info

datatype gnutls_credentials_type_t = GNUTLS_CRD_CERTIFICATE | GNUTLS_CRD_PSK

datatype gnutls_certificate_request_t =
  GNUTLS_CERT_IGNORE | GNUTLS_CERT_REQUEST | GNUTLS_CERT_REQUIRE

text \<open>The calls to the outside that the model records, in the order the program makes
  them. \<open>Ev_priority_init\<close> carries the priority string (\<open>None\<close> for NULL) and the
  return code; \<open>Ev_priority_deinit\<close> carries the handle of the object released.\<close>

datatype event =
    Ev_setsockopt int sock_level sock_optname sock_optval
  | Ev_record_get_state nat
  | Ev_allocate_credentials gnutls_credentials_type_t
  | Ev_free_credentials gnutls_credentials_type_t
  | Ev_gnutls_init
  | Ev_gnutls_deinit
  | Ev_gnutls_handshake
  | Ev_keyctl_search string
  | Ev_priority_init "string option" int
  | Ev_priority_deinit nat

text \<open>The state outside the program's own variables: the trace, \<^verbatim>\<open>errno\<close>, and the
  handles of the priority objects that are allocated and not yet released.\<close>

record world =
  trace :: "event list"
  errno :: int
  live_priorities :: "nat list"

text \<open>The kernel's answer to a socket option: \<open>None\<close> for success, \<open>Some e\<close> for
  failure with \<^verbatim>\<open>errno = e\<close>. It may depend on every call made before.\<close>

type_synonym kernel = "event list \<Rightarrow> int \<Rightarrow> sock_level \<Rightarrow> sock_optname \<Rightarrow> sock_optval \<Rightarrow> int option"

definition setsockopt ::
  "kernel \<Rightarrow> int \<Rightarrow> sock_level \<Rightarrow> sock_optname \<Rightarrow> sock_optval \<Rightarrow> world \<Rightarrow> int \<times> world" where
  "setsockopt kern fd level optname optval w =
     (let w1 = w\<lparr>trace := trace w @ [Ev_setsockopt fd level optname optval]\<rparr>
      in case kern (trace w) fd level optname optval of
           None \<Rightarrow> (0, w1)
         | Some e \<Rightarrow> (- 1, w1\<lparr>errno := e\<rparr>))"

definition is_setsockopt :: "event \<Rightarrow> bool" where
  "is_setsockopt ev = (case ev of Ev_setsockopt fd level optname optval \<Rightarrow> True | _ \<Rightarrow> False)"

subsection \<open>The session as the library reports it\<close>

text \<open>\<^verbatim>\<open>gnutls_datum_t\<close> is a pointer with a size: a byte list. The four outputs of
  \<^verbatim>\<open>gnutls_record_get_state\<close>; \<open>rs_seq_number\<close> is what the library writes into the
  caller's \<^verbatim>\<open>unsigned char seq_number[8]\<close>.\<close>

record record_state =
  rs_mac_key :: "byte list"
  rs_iv :: "byte list"
  rs_cipher_key :: "byte list"
  rs_seq_number :: "byte list"

text \<open>The opaque \<^verbatim>\<open>gnutls_session_t\<close>: the transport descriptors the program binds, and
  the answers of the library's query functions. \<open>ses_record_state\<close> takes the
  \<^verbatim>\<open>read\<close> argument (0 for the send direction, non-zero for receive) and gives the return
  code with the outputs. \<open>ses_peers\<close> is the result of
  \<^verbatim>\<open>gnutls_certificate_get_peers\<close>: \<open>None\<close> for a NULL pointer (the count is then not
  written), otherwise the DER certificates, whose number the library writes to the count.\<close>

record gnutls_session =
  ses_transport_recv :: int
  ses_transport_send :: int
  ses_ktls_enabled :: int
  ses_record_state :: "nat \<Rightarrow> int \<times> record_state"
  ses_protocol_version :: gnutls_protocol_t
  ses_cipher :: gnutls_cipher_algorithm_t
  ses_ptr :: "string option"
  ses_verify_peers3 :: "int \<times> nat"
  ses_certificate_type_x509 :: bool
  ses_peers :: "byte list list option"
  ses_credentials :: "gnutls_credentials_type_t option"
  ses_cert_request :: gnutls_certificate_request_t
  ses_priority :: "nat option"

definition gnutls_transport_is_ktls_enabled :: "gnutls_session \<Rightarrow> int" where
  "gnutls_transport_is_ktls_enabled session = ses_ktls_enabled session"

definition gnutls_record_get_state ::
  "gnutls_session \<Rightarrow> nat \<Rightarrow> world \<Rightarrow> int \<times> record_state \<times> world" where
  "gnutls_record_get_state session rd w =
     (fst (ses_record_state session rd), snd (ses_record_state session rd),
      w\<lparr>trace := trace w @ [Ev_record_get_state rd]\<rparr>)"

definition gnutls_protocol_get_version :: "gnutls_session \<Rightarrow> gnutls_protocol_t" where
  "gnutls_protocol_get_version session = ses_protocol_version session"

definition gnutls_cipher_get :: "gnutls_session \<Rightarrow> gnutls_cipher_algorithm_t" where
  "gnutls_cipher_get session = ses_cipher session"

definition gnutls_transport_get_int :: "gnutls_session \<Rightarrow> int" where
  "gnutls_transport_get_int session = ses_transport_recv session"

definition gnutls_transport_get_int2 :: "gnutls_session \<Rightarrow> int \<times> int" where
  "gnutls_transport_get_int2 session = (ses_transport_recv session, ses_transport_send session)"

definition gnutls_transport_set_int :: "gnutls_session \<Rightarrow> int \<Rightarrow> gnutls_session" where
  "gnutls_transport_set_int session fd =
     session\<lparr>ses_transport_recv := fd, ses_transport_send := fd\<rparr>"

subsection \<open>\<^verbatim>\<open>memcpy\<close>\<close>

text \<open>\<^verbatim>\<open>memcpy(dst, src, n)\<close> on a destination array of the structure: the first \<open>n\<close> bytes
  of the destination are replaced. Reading past the end of the source, or writing past the
  end of the destination, is undefined behaviour in C; the model returns \<open>None\<close> there,
  and so does every function that runs into it.\<close>

definition memcpy :: "byte list \<Rightarrow> byte list \<Rightarrow> nat \<Rightarrow> byte list option" where
  "memcpy dst src n =
     (if n \<le> length src \<and> n \<le> length dst then Some (take n src @ drop n dst) else None)"

subsection \<open>\<^verbatim>\<open>ktls.c\<close>: installing the key material\<close>

definition tlshd_is_ktls_enabled :: "build_config \<Rightarrow> gnutls_session \<Rightarrow> nat \<Rightarrow> bool" where
  "tlshd_is_ktls_enabled cfg session rd =
     (if HAVE_GNUTLS_TRANSPORT_IS_KTLS_ENABLED cfg then
        (let ret = gnutls_transport_is_ktls_enabled session in
         if ret = GNUTLS_E_UNIMPLEMENTED_FEATURE then False
         else if rd \<noteq> 0 then
           (if ret AND GNUTLS_KTLS_RECV = 0 then False else True)
         else
           (if ret AND GNUTLS_KTLS_SEND = 0 then False else True))
      else False)"

text \<open>After a failed call the C function switches on \<^verbatim>\<open>errno\<close> to choose the message
  it logs, and returns false in every case.\<close>

definition tlshd_setsockopt ::
  "kernel \<Rightarrow> int \<Rightarrow> nat \<Rightarrow> tls12_crypto_info \<Rightarrow> world \<Rightarrow> bool \<times> world" where
  "tlshd_setsockopt kern sock rd info w =
     (let (ret, w1) =
            setsockopt kern sock SOL_TLS (if rd \<noteq> 0 then TLS_RX else TLS_TX)
              (Opt_crypto_info info) w
      in if ret = 0 then (True, w1) else (False, w1))"

definition tlshd_set_aes_gcm128_info ::
  "build_config \<Rightarrow> kernel \<Rightarrow> gnutls_session \<Rightarrow> int \<Rightarrow> nat \<Rightarrow> world \<Rightarrow> (bool \<times> world) option" where
  "tlshd_set_aes_gcm128_info cfg kern session sock rd w =
     (let info = \<lparr>ci_version = TLS_1_3_VERSION, ci_cipher_type = TLS_CIPHER_AES_GCM_128,
                  ci_iv = replicate TLS_CIPHER_AES_GCM_128_IV_SIZE 0,
                  ci_key = replicate TLS_CIPHER_AES_GCM_128_KEY_SIZE 0,
                  ci_salt = replicate TLS_CIPHER_AES_GCM_128_SALT_SIZE 0,
                  ci_rec_seq = replicate TLS_CIPHER_AES_GCM_128_REC_SEQ_SIZE 0\<rparr>
      in if tlshd_is_ktls_enabled cfg session rd then Some (True, w)
         else
           (let (ret, st, w1) = gnutls_record_get_state session rd w
            in if ret \<noteq> GNUTLS_E_SUCCESS then Some (False, w1)
               else do {
                 info1 \<leftarrow>
                   (if gnutls_protocol_get_version session = GNUTLS_TLS1_2 then
                      do {
                        b \<leftarrow> memcpy (ci_iv info) (rs_seq_number st) TLS_CIPHER_AES_GCM_128_IV_SIZE;
                        Some (info\<lparr>ci_version := TLS_1_2_VERSION, ci_iv := b\<rparr>)
                      }
                    else
                      do {
                        b \<leftarrow> memcpy (ci_iv info) (drop TLS_CIPHER_AES_GCM_128_SALT_SIZE (rs_iv st))
                               TLS_CIPHER_AES_GCM_128_IV_SIZE;
                        Some (info\<lparr>ci_iv := b\<rparr>)
                      });
                 s \<leftarrow> memcpy (ci_salt info1) (rs_iv st) TLS_CIPHER_AES_GCM_128_SALT_SIZE;
                 k \<leftarrow> memcpy (ci_key info1) (rs_cipher_key st) TLS_CIPHER_AES_GCM_128_KEY_SIZE;
                 r \<leftarrow> memcpy (ci_rec_seq info1) (rs_seq_number st) TLS_CIPHER_AES_GCM_128_REC_SEQ_SIZE;
                 Some (tlshd_setsockopt kern sock rd (info1\<lparr>ci_salt := s, ci_key := k, ci_rec_seq := r\<rparr>) w1)
               }))"

definition tlshd_set_aes_gcm256_info ::
  "build_config \<Rightarrow> kernel \<Rightarrow> gnutls_session \<Rightarrow> int \<Rightarrow> nat \<Rightarrow> world \<Rightarrow> (bool \<times> world) option" where
  "tlshd_set_aes_gcm256_info cfg kern session sock rd w =
     (let info = \<lparr>ci_version = TLS_1_3_VERSION, ci_cipher_type = TLS_CIPHER_AES_GCM_256,
                  ci_iv = replicate TLS_CIPHER_AES_GCM_256_IV_SIZE 0,
                  ci_key = replicate TLS_CIPHER_AES_GCM_256_KEY_SIZE 0,
                  ci_salt = replicate TLS_CIPHER_AES_GCM_256_SALT_SIZE 0,
                  ci_rec_seq = replicate TLS_CIPHER_AES_GCM_256_REC_SEQ_SIZE 0\<rparr>
      in if tlshd_is_ktls_enabled cfg session rd then Some (True, w)
         else
           (let (ret, st, w1) = gnutls_record_get_state session rd w
            in if ret \<noteq> GNUTLS_E_SUCCESS then Some (False, w1)
               else do {
                 info1 \<leftarrow>
                   (if gnutls_protocol_get_version session = GNUTLS_TLS1_2 then
                      do {
                        b \<leftarrow> memcpy (ci_iv info) (rs_seq_number st) TLS_CIPHER_AES_GCM_256_IV_SIZE;
                        Some (info\<lparr>ci_version := TLS_1_2_VERSION, ci_iv := b\<rparr>)
                      }
                    else
                      do {
                        b \<leftarrow> memcpy (ci_iv info) (drop TLS_CIPHER_AES_GCM_256_SALT_SIZE (rs_iv st))
                               TLS_CIPHER_AES_GCM_256_IV_SIZE;
                        Some (info\<lparr>ci_iv := b\<rparr>)
                      });
                 s \<leftarrow> memcpy (ci_salt info1) (rs_iv st) TLS_CIPHER_AES_GCM_256_SALT_SIZE;
                 k \<leftarrow> memcpy (ci_key info1) (rs_cipher_key st) TLS_CIPHER_AES_GCM_256_KEY_SIZE;
                 r \<leftarrow> memcpy (ci_rec_seq info1) (rs_seq_number st) TLS_CIPHER_AES_GCM_256_REC_SEQ_SIZE;
                 Some (tlshd_setsockopt kern sock rd (info1\<lparr>ci_salt := s, ci_key := k, ci_rec_seq := r\<rparr>) w1)
               }))"

definition tlshd_set_aes_ccm128_info ::
  "build_config \<Rightarrow> kernel \<Rightarrow> gnutls_session \<Rightarrow> int \<Rightarrow> nat \<Rightarrow> world \<Rightarrow> (bool \<times> world) option" where
  "tlshd_set_aes_ccm128_info cfg kern session sock rd w =
     (let info = \<lparr>ci_version = TLS_1_3_VERSION, ci_cipher_type = TLS_CIPHER_AES_CCM_128,
                  ci_iv = replicate TLS_CIPHER_AES_CCM_128_IV_SIZE 0,
                  ci_key = replicate TLS_CIPHER_AES_CCM_128_KEY_SIZE 0,
                  ci_salt = replicate TLS_CIPHER_AES_CCM_128_SALT_SIZE 0,
                  ci_rec_seq = replicate TLS_CIPHER_AES_CCM_128_REC_SEQ_SIZE 0\<rparr>
      in if tlshd_is_ktls_enabled cfg session rd then Some (True, w)
         else
           (let (ret, st, w1) = gnutls_record_get_state session rd w
            in if ret \<noteq> GNUTLS_E_SUCCESS then Some (False, w1)
               else do {
                 info1 \<leftarrow>
                   (if gnutls_protocol_get_version session = GNUTLS_TLS1_2 then
                      do {
                        b \<leftarrow> memcpy (ci_iv info) (rs_seq_number st) TLS_CIPHER_AES_CCM_128_IV_SIZE;
                        Some (info\<lparr>ci_version := TLS_1_2_VERSION, ci_iv := b\<rparr>)
                      }
                    else
                      do {
                        b \<leftarrow> memcpy (ci_iv info) (drop TLS_CIPHER_AES_CCM_128_SALT_SIZE (rs_iv st))
                               TLS_CIPHER_AES_CCM_128_IV_SIZE;
                        Some (info\<lparr>ci_iv := b\<rparr>)
                      });
                 s \<leftarrow> memcpy (ci_salt info1) (rs_iv st) TLS_CIPHER_AES_CCM_128_SALT_SIZE;
                 k \<leftarrow> memcpy (ci_key info1) (rs_cipher_key st) TLS_CIPHER_AES_CCM_128_KEY_SIZE;
                 r \<leftarrow> memcpy (ci_rec_seq info1) (rs_seq_number st) TLS_CIPHER_AES_CCM_128_REC_SEQ_SIZE;
                 Some (tlshd_setsockopt kern sock rd (info1\<lparr>ci_salt := s, ci_key := k, ci_rec_seq := r\<rparr>) w1)
               }))"

text \<open>The ChaCha20-Poly1305 variant changes only the version tag for TLS 1.2 and never
  copies a salt.\<close>

definition tlshd_set_chacha20_poly1305_info ::
  "build_config \<Rightarrow> kernel \<Rightarrow> gnutls_session \<Rightarrow> int \<Rightarrow> nat \<Rightarrow> world \<Rightarrow> (bool \<times> world) option" where
  "tlshd_set_chacha20_poly1305_info cfg kern session sock rd w =
     (let info = \<lparr>ci_version = TLS_1_3_VERSION, ci_cipher_type = TLS_CIPHER_CHACHA20_POLY1305,
                  ci_iv = replicate TLS_CIPHER_CHACHA20_POLY1305_IV_SIZE 0,
                  ci_key = replicate TLS_CIPHER_CHACHA20_POLY1305_KEY_SIZE 0,
                  ci_salt = replicate TLS_CIPHER_CHACHA20_POLY1305_SALT_SIZE 0,
                  ci_rec_seq = replicate TLS_CIPHER_CHACHA20_POLY1305_REC_SEQ_SIZE 0\<rparr>
      in if tlshd_is_ktls_enabled cfg session rd then Some (True, w)
         else
           (let (ret, st, w1) = gnutls_record_get_state session rd w
            in if ret \<noteq> GNUTLS_E_SUCCESS then Some (False, w1)
               else do {
                 let info1 =
                   (if gnutls_protocol_get_version session = GNUTLS_TLS1_2
                    then info\<lparr>ci_version := TLS_1_2_VERSION\<rparr> else info);
                 b \<leftarrow> memcpy (ci_iv info1) (rs_iv st) TLS_CIPHER_CHACHA20_POLY1305_IV_SIZE;
                 k \<leftarrow> memcpy (ci_key info1) (rs_cipher_key st) TLS_CIPHER_CHACHA20_POLY1305_KEY_SIZE;
                 r \<leftarrow> memcpy (ci_rec_seq info1) (rs_seq_number st)
                        TLS_CIPHER_CHACHA20_POLY1305_REC_SEQ_SIZE;
                 Some (tlshd_setsockopt kern sock rd (info1\<lparr>ci_iv := b, ci_key := k, ci_rec_seq := r\<rparr>) w1)
               }))"

text \<open>\<^verbatim>\<open>a && b ? 0 : EIO\<close>: the receive direction is attempted only when the send
  direction succeeded.\<close>

definition both_directions ::
  "(int \<Rightarrow> nat \<Rightarrow> world \<Rightarrow> (bool \<times> world) option) \<Rightarrow> int \<Rightarrow> int \<Rightarrow> world \<Rightarrow> (int \<times> world) option" where
  "both_directions set_info sockin sockout w =
     do {
       (tx, w1) \<leftarrow> set_info sockout 0 w;
       if tx then
         do {
           (rx, w2) \<leftarrow> set_info sockin 1 w1;
           Some (if rx then 0 else EIO, w2)
         }
       else Some (EIO, w1)
     }"

definition tlshd_initialize_ktls ::
  "build_config \<Rightarrow> kernel \<Rightarrow> gnutls_session \<Rightarrow> world \<Rightarrow> (int \<times> world) option" where
  "tlshd_initialize_ktls cfg kern session w =
     (let (r, w1) = setsockopt kern (gnutls_transport_get_int session) SOL_TCP TCP_ULP
                      (Opt_string ''tls'') w
      in if r = - 1 then Some (EIO, w1)
         else
           (let (sockin, sockout) = gnutls_transport_get_int2 session
            in case gnutls_cipher_get session of
                 GNUTLS_CIPHER_AES_128_GCM \<Rightarrow>
                   if defined_TLS_CIPHER_AES_GCM_128 cfg
                   then both_directions (tlshd_set_aes_gcm128_info cfg kern session) sockin sockout w1
                   else Some (EIO, w1)
               | GNUTLS_CIPHER_AES_256_GCM \<Rightarrow>
                   if defined_TLS_CIPHER_AES_GCM_256 cfg
                   then both_directions (tlshd_set_aes_gcm256_info cfg kern session) sockin sockout w1
                   else Some (EIO, w1)
               | GNUTLS_CIPHER_AES_128_CCM \<Rightarrow>
                   if defined_TLS_CIPHER_AES_CCM_128 cfg
                   then both_directions (tlshd_set_aes_ccm128_info cfg kern session) sockin sockout w1
                   else Some (EIO, w1)
               | GNUTLS_CIPHER_CHACHA20_POLY1305 \<Rightarrow>
                   if defined_TLS_CIPHER_CHACHA20_POLY1305 cfg
                   then both_directions (tlshd_set_chacha20_poly1305_info cfg kern session) sockin sockout w1
                   else Some (EIO, w1)
               | GNUTLS_CIPHER_OTHER n \<Rightarrow> Some (EIO, w1)))"

subsection \<open>The installation of one direction, as the specification describes it\<close>

text \<open>The specification (4.3, 9) describes one operation with a cipher descriptor where
  the source has four functions. The descriptor: the kernel's cipher tag and the sizes of
  the fields.\<close>

fun cipher_tag :: "gnutls_cipher_algorithm_t \<Rightarrow> 16 word" where
  "cipher_tag GNUTLS_CIPHER_AES_128_GCM = TLS_CIPHER_AES_GCM_128"
| "cipher_tag GNUTLS_CIPHER_AES_256_GCM = TLS_CIPHER_AES_GCM_256"
| "cipher_tag GNUTLS_CIPHER_AES_128_CCM = TLS_CIPHER_AES_CCM_128"
| "cipher_tag GNUTLS_CIPHER_CHACHA20_POLY1305 = TLS_CIPHER_CHACHA20_POLY1305"
| "cipher_tag (GNUTLS_CIPHER_OTHER n) = 0"

fun cipher_iv_size :: "gnutls_cipher_algorithm_t \<Rightarrow> nat" where
  "cipher_iv_size GNUTLS_CIPHER_CHACHA20_POLY1305 = 12"
| "cipher_iv_size c = 8"

fun cipher_key_size :: "gnutls_cipher_algorithm_t \<Rightarrow> nat" where
  "cipher_key_size GNUTLS_CIPHER_AES_128_GCM = 16"
| "cipher_key_size GNUTLS_CIPHER_AES_128_CCM = 16"
| "cipher_key_size c = 32"

fun cipher_salt_size :: "gnutls_cipher_algorithm_t \<Rightarrow> nat" where
  "cipher_salt_size GNUTLS_CIPHER_CHACHA20_POLY1305 = 0"
| "cipher_salt_size c = 4"

text \<open>The structure to install: for TLS 1.2 the version tag is the 1.2 constant and, for
  the GCM and CCM ciphers, the IV field is the sequence number; otherwise the IV field is
  the extracted IV past the salt (ChaCha20-Poly1305 has no salt, so its IV field is the
  start of the extracted IV whatever the version).\<close>

definition crypto_info_spec ::
  "gnutls_cipher_algorithm_t \<Rightarrow> gnutls_protocol_t \<Rightarrow> record_state \<Rightarrow> tls12_crypto_info" where
  "crypto_info_spec c v st =
     \<lparr>ci_version = (if v = GNUTLS_TLS1_2 then TLS_1_2_VERSION else TLS_1_3_VERSION),
      ci_cipher_type = cipher_tag c,
      ci_iv = (if v = GNUTLS_TLS1_2 \<and> c \<noteq> GNUTLS_CIPHER_CHACHA20_POLY1305
               then take (cipher_iv_size c) (rs_seq_number st)
               else take (cipher_iv_size c) (drop (cipher_salt_size c) (rs_iv st))),
      ci_key = take (cipher_key_size c) (rs_cipher_key st),
      ci_salt = take (cipher_salt_size c) (rs_iv st),
      ci_rec_seq = take 8 (rs_seq_number st)\<rparr>"

text \<open>The extracted data are long enough for every copy the installation makes.\<close>

definition record_state_fits ::
  "gnutls_cipher_algorithm_t \<Rightarrow> gnutls_protocol_t \<Rightarrow> record_state \<Rightarrow> bool" where
  "record_state_fits c v st =
     (8 \<le> length (rs_seq_number st) \<and>
      cipher_key_size c \<le> length (rs_cipher_key st) \<and>
      (if v = GNUTLS_TLS1_2 \<and> c \<noteq> GNUTLS_CIPHER_CHACHA20_POLY1305
       then cipher_salt_size c \<le> length (rs_iv st)
       else cipher_salt_size c + cipher_iv_size c \<le> length (rs_iv st)))"

definition install_direction_spec ::
  "build_config \<Rightarrow> kernel \<Rightarrow> gnutls_session \<Rightarrow> gnutls_cipher_algorithm_t \<Rightarrow> int \<Rightarrow> nat \<Rightarrow> world
     \<Rightarrow> (bool \<times> world) option" where
  "install_direction_spec cfg kern session c sock rd w =
     (let (ret, st) = ses_record_state session rd;
          v = ses_protocol_version session;
          w1 = w\<lparr>trace := trace w @ [Ev_record_get_state rd]\<rparr>
      in if tlshd_is_ktls_enabled cfg session rd then Some (True, w)
         else if ret \<noteq> GNUTLS_E_SUCCESS then Some (False, w1)
         else if record_state_fits c v st
         then Some (tlshd_setsockopt kern sock rd (crypto_info_spec c v st) w1)
         else None)"

definition sockopt_calls :: "world \<Rightarrow> event list" where
  "sockopt_calls w = filter is_setsockopt (trace w)"

text \<open>The events one direction can add to the trace: the extraction of the record state
  and the socket option that installs the structure of the description.\<close>

definition direction_events ::
  "gnutls_session \<Rightarrow> int \<Rightarrow> nat \<Rightarrow> event set" where
  "direction_events session sock rd =
     {Ev_record_get_state rd,
      Ev_setsockopt sock SOL_TLS (if rd \<noteq> 0 then TLS_RX else TLS_TX)
        (Opt_crypto_info
           (crypto_info_spec (ses_cipher session) (ses_protocol_version session)
              (snd (ses_record_state session rd))))}"

subsection \<open>\<^verbatim>\<open>ktls.c\<close>: the priority strings\<close>

text \<open>\<^verbatim>\<open>strcat\<close> into \<^verbatim>\<open>char pstring[1024]\<close>: the result with its terminating NUL has
  to fit; writing past the buffer is undefined behaviour, \<open>None\<close> in the model.\<close>

definition pstring_size :: nat where "pstring_size = 1024"

definition strcat :: "string \<Rightarrow> string \<Rightarrow> string option" where
  "strcat dest src =
     (if length dest + length src + 1 \<le> pstring_size then Some (dest @ src) else None)"

definition emit_cipher_string ::
  "build_config \<Rightarrow> string \<Rightarrow> gnutls_cipher_algorithm_t \<Rightarrow> string option" where
  "emit_cipher_string cfg pstring cipher =
     (case cipher of
        GNUTLS_CIPHER_CHACHA20_POLY1305 \<Rightarrow>
          if defined_TLS_CIPHER_CHACHA20_POLY1305 cfg
          then strcat pstring '':+CHACHA20-POLY1305'' else Some pstring
      | GNUTLS_CIPHER_AES_256_GCM \<Rightarrow>
          if defined_TLS_CIPHER_AES_GCM_256 cfg
          then strcat pstring '':+AES-256-GCM'' else Some pstring
      | GNUTLS_CIPHER_AES_128_GCM \<Rightarrow>
          if defined_TLS_CIPHER_AES_GCM_128 cfg
          then strcat pstring '':+AES-128-GCM'' else Some pstring
      | GNUTLS_CIPHER_AES_128_CCM \<Rightarrow>
          if defined_TLS_CIPHER_AES_CCM_128 cfg
          then strcat pstring '':+AES-128-CCM'' else Some pstring
      | GNUTLS_CIPHER_OTHER n \<Rightarrow> Some pstring)"

text \<open>What the library answers to the two priority functions: the return code of
  \<^verbatim>\<open>gnutls_priority_init\<close> for a priority string (\<open>None\<close> is the NULL string, the
  library's default), and the return value of \<^verbatim>\<open>gnutls_priority_cipher_list\<close> with the
  array it points the caller to.\<close>

record priority_lib =
  lib_priority_init :: "string option \<Rightarrow> int"
  lib_priority_cipher_list :: "int \<times> gnutls_cipher_algorithm_t list"

text \<open>A successful \<^verbatim>\<open>gnutls_priority_init\<close> allocates an object; its handle is the
  position of the call in the trace, so no two objects share a handle. On failure the
  library leaves NULL in the caller's variable.\<close>

definition gnutls_priority_init ::
  "priority_lib \<Rightarrow> string option \<Rightarrow> world \<Rightarrow> int \<times> nat option \<times> world" where
  "gnutls_priority_init lib priorities w =
     (let ret = lib_priority_init lib priorities;
          h = length (trace w);
          w1 = w\<lparr>trace := trace w @ [Ev_priority_init priorities ret]\<rparr>
      in if ret = GNUTLS_E_SUCCESS
         then (ret, Some h, w1\<lparr>live_priorities := h # live_priorities w1\<rparr>)
         else (ret, None, w1))"

definition gnutls_priority_deinit :: "nat option \<Rightarrow> world \<Rightarrow> world" where
  "gnutls_priority_deinit priority_cache w =
     (case priority_cache of
        None \<Rightarrow> w
      | Some h \<Rightarrow> w\<lparr>trace := trace w @ [Ev_priority_deinit h],
                     live_priorities := removeAll h (live_priorities w)\<rparr>)"

definition gnutls_priority_cipher_list ::
  "priority_lib \<Rightarrow> nat option \<Rightarrow> int \<times> gnutls_cipher_algorithm_t list" where
  "gnutls_priority_cipher_list lib pcache = lib_priority_cipher_list lib"

text \<open>The two static variables of \<^verbatim>\<open>ktls.c\<close>.\<close>

record ktls_globals =
  tlshd_gnutls_priority :: "nat option"
  tlshd_gnutls_priority_psk :: "nat option"

text \<open>\<^verbatim>\<open>for (i = 0; i < ret; ++i) emit_cipher_string(pstring, ciphers[i]);\<close>
  reads \<^verbatim>\<open>ciphers[i]\<close>; an index past the array the library returned is an
  out-of-bounds read.\<close>

function emit_ciphers ::
  "build_config \<Rightarrow> gnutls_cipher_algorithm_t list \<Rightarrow> int \<Rightarrow> nat \<Rightarrow> string \<Rightarrow> string option" where
  "emit_ciphers cfg ciphers ret i pstring =
     (if int i < ret then
        (if i < length ciphers then
           (case emit_cipher_string cfg pstring (ciphers ! i) of
              None \<Rightarrow> None
            | Some pstring1 \<Rightarrow> emit_ciphers cfg ciphers ret (Suc i) pstring1)
         else None)
      else Some pstring)"
  by pat_completeness auto
termination
  by (relation "measure (\<lambda>(cfg, ciphers, ret, i, pstring). nat ret - i)") auto

definition tlshd_gnutls_priority_init ::
  "build_config \<Rightarrow> priority_lib \<Rightarrow> ktls_globals \<Rightarrow> world \<Rightarrow> (int \<times> ktls_globals \<times> world) option" where
  "tlshd_gnutls_priority_init cfg lib g w =
     (let (ret, p, w1) = gnutls_priority_init lib None w;
          g1 = g\<lparr>tlshd_gnutls_priority := p\<rparr>
      in if ret \<noteq> GNUTLS_E_SUCCESS then Some (- EIO, g1, w1)
         else
           (let (ret, ciphers) = gnutls_priority_cipher_list lib (tlshd_gnutls_priority g1)
            in if ret < 0 then Some (- EIO, g1, w1)
               else do {
                 pstring \<leftarrow> strcat [] ''SECURE256:+SECURE128:-COMP-ALL'';
                 pstring \<leftarrow> strcat pstring '':-VERS-ALL:+VERS-TLS1.3:%NO_TICKETS'';
                 pstring \<leftarrow> strcat pstring '':-CIPHER-ALL'';
                 pstring \<leftarrow> emit_ciphers cfg ciphers ret 0 pstring;
                 let w2 = gnutls_priority_deinit (tlshd_gnutls_priority g1) w1;
                 let (ret, p, w3) = gnutls_priority_init lib (Some pstring) w2;
                 let g2 = g1\<lparr>tlshd_gnutls_priority := p\<rparr>;
                 if ret \<noteq> GNUTLS_E_SUCCESS then Some (- EIO, g2, w3)
                 else do {
                   pstring \<leftarrow> strcat pstring '':+PSK:+DHE-PSK:+ECDHE-PSK'';
                   let (ret, p, w4) = gnutls_priority_init lib (Some pstring) w3;
                   let g3 = g2\<lparr>tlshd_gnutls_priority_psk := p\<rparr>;
                   if ret \<noteq> GNUTLS_E_SUCCESS
                   then Some (- EIO, g3, gnutls_priority_deinit (tlshd_gnutls_priority g3) w4)
                   else Some (0, g3, w4)
                 }
               }))"

definition tlshd_gnutls_priority_deinit :: "ktls_globals \<Rightarrow> world \<Rightarrow> world" where
  "tlshd_gnutls_priority_deinit g w =
     gnutls_priority_deinit (tlshd_gnutls_priority_psk g)
       (gnutls_priority_deinit (tlshd_gnutls_priority g) w)"

text \<open>The specification's reading of the cipher segment, to compare the loop with: the
  kernel-supported ciphers of this build, and the token each of them contributes.\<close>

definition kernel_supported :: "build_config \<Rightarrow> gnutls_cipher_algorithm_t \<Rightarrow> bool" where
  "kernel_supported cfg c =
     (c = GNUTLS_CIPHER_AES_128_GCM \<and> defined_TLS_CIPHER_AES_GCM_128 cfg \<or>
      c = GNUTLS_CIPHER_AES_256_GCM \<and> defined_TLS_CIPHER_AES_GCM_256 cfg \<or>
      c = GNUTLS_CIPHER_AES_128_CCM \<and> defined_TLS_CIPHER_AES_CCM_128 cfg \<or>
      c = GNUTLS_CIPHER_CHACHA20_POLY1305 \<and> defined_TLS_CIPHER_CHACHA20_POLY1305 cfg)"

fun cipher_token :: "gnutls_cipher_algorithm_t \<Rightarrow> string" where
  "cipher_token GNUTLS_CIPHER_AES_128_GCM = '':+AES-128-GCM''"
| "cipher_token GNUTLS_CIPHER_AES_256_GCM = '':+AES-256-GCM''"
| "cipher_token GNUTLS_CIPHER_AES_128_CCM = '':+AES-128-CCM''"
| "cipher_token GNUTLS_CIPHER_CHACHA20_POLY1305 = '':+CHACHA20-POLY1305''"
| "cipher_token (GNUTLS_CIPHER_OTHER n) = []"

definition cipher_segment ::
  "build_config \<Rightarrow> gnutls_cipher_algorithm_t list \<Rightarrow> string" where
  "cipher_segment cfg cs = concat (map cipher_token (filter (kernel_supported cfg) cs))"

definition priority_prefix :: string where
  "priority_prefix =
     ''SECURE256:+SECURE128:-COMP-ALL:-VERS-ALL:+VERS-TLS1.3:%NO_TICKETS:-CIPHER-ALL''"

definition full_build :: build_config where
  "full_build =
     \<lparr>HAVE_GNUTLS_TRANSPORT_IS_KTLS_ENABLED = True,
      defined_TLS_CIPHER_AES_GCM_128 = True,
      defined_TLS_CIPHER_AES_GCM_256 = True,
      defined_TLS_CIPHER_AES_CCM_128 = True,
      defined_TLS_CIPHER_CHACHA20_POLY1305 = True\<rparr>"

subsection \<open>\<^verbatim>\<open>server.c\<close>: data\<close>

datatype handshake_auth = HANDSHAKE_AUTH_X509 | HANDSHAKE_AUTH_PSK | HANDSHAKE_AUTH_OTHER int

text \<open>\<^verbatim>\<open>struct tlshd_handshake_parms\<close>, the fields \<^verbatim>\<open>server.c\<close> reads or writes.
  \<open>remote_peerid\<close> is a pointer in C; the model holds the array it points to.\<close>

record tlshd_handshake_parms =
  auth_mode :: handshake_auth
  sockfd :: int
  x509_cert :: int
  x509_privkey :: int
  num_remote_peerids :: nat
  remote_peerid :: "int list"

text \<open>The four static variables of \<^verbatim>\<open>server.c\<close>. \<open>tlshd_remote_peerid\<close> is declared
  with ten elements.\<close>

record server_globals =
  tlshd_server_privkey :: "byte list option"
  tlshd_server_cert :: "byte list option"
  tlshd_num_remote_peerids :: nat
  tlshd_remote_peerid :: "int list"

definition ARRAY_SIZE_tlshd_remote_peerid :: nat where
  "ARRAY_SIZE_tlshd_remote_peerid = 10"

text \<open>C initialises statics to zero.\<close>

definition server_globals_init :: server_globals where
  "server_globals_init =
     \<lparr>tlshd_server_privkey = None, tlshd_server_cert = None,
      tlshd_num_remote_peerids = 0,
      tlshd_remote_peerid = replicate ARRAY_SIZE_tlshd_remote_peerid 0\<rparr>"

text \<open>Everything \<^verbatim>\<open>server.c\<close> asks of its collaborators: the build and the kernel, the
  two constants of the missing header \<^verbatim>\<open>netlink.h\<close>, the return codes of the library's
  allocation functions, the keyring and configuration helpers of the repository (each
  gives \<open>None\<close> when the C function returns false), the session \<^verbatim>\<open>gnutls_init\<close>
  creates, the priority state of \<^verbatim>\<open>ktls.c\<close>, and the remote peer: the user name it
  claims and the library's verdict on the parts of the handshake before and after the
  program's callbacks run.\<close>

record server_env =
  env_cfg :: build_config
  env_kernel :: kernel
  env_TLS_NO_CERT :: int
  env_TLS_NO_PRIVKEY :: int
  env_global_init :: int
  env_certificate_allocate_credentials :: int
  env_set_x509_system_trust :: int
  env_keyring_get_cert :: "int \<Rightarrow> byte list option"
  env_config_get_server_cert :: "byte list option"
  env_keyring_get_privkey :: "int \<Rightarrow> bool"
  env_config_get_server_privkey :: "byte list option"
  env_psk_allocate_server_credentials :: int
  env_gnutls_init :: "int \<times> gnutls_session"
  env_keyctl_search :: "string \<Rightarrow> int"
  env_keyring_get_psk_key :: "int \<Rightarrow> byte list option"
  env_keyring_create_cert :: "byte list \<Rightarrow> string option \<Rightarrow> int"
  env_priorities :: ktls_globals
  env_priority_set :: "nat option \<Rightarrow> int"
  env_peer_username :: string
  env_handshake_hello :: int
  env_handshake_finish :: int

definition emit :: "event \<Rightarrow> world \<Rightarrow> world" where
  "emit ev w = w\<lparr>trace := trace w @ [ev]\<rparr>"

subsection \<open>\<^verbatim>\<open>server.c\<close>: credentials and callbacks\<close>

definition tlshd_x509_server_get_cert ::
  "server_env \<Rightarrow> tlshd_handshake_parms \<Rightarrow> server_globals \<Rightarrow> bool \<times> server_globals" where
  "tlshd_x509_server_get_cert e parms g =
     (if x509_cert parms \<noteq> env_TLS_NO_CERT e then
        (case env_keyring_get_cert e (x509_cert parms) of
           None \<Rightarrow> (False, g)
         | Some c \<Rightarrow> (True, g\<lparr>tlshd_server_cert := Some c\<rparr>))
      else
        (case env_config_get_server_cert e of
           None \<Rightarrow> (False, g)
         | Some c \<Rightarrow> (True, g\<lparr>tlshd_server_cert := Some c\<rparr>)))"

text \<open>The keyring variant is handed \<^verbatim>\<open>tlshd_server_privkey\<close> by value, so the static
  variable itself is not assigned there.\<close>

definition tlshd_x509_server_get_privkey ::
  "server_env \<Rightarrow> tlshd_handshake_parms \<Rightarrow> server_globals \<Rightarrow> bool \<times> server_globals" where
  "tlshd_x509_server_get_privkey e parms g =
     (if x509_privkey parms \<noteq> env_TLS_NO_PRIVKEY e then
        (env_keyring_get_privkey e (x509_privkey parms), g)
      else
        (case env_config_get_server_privkey e of
           None \<Rightarrow> (False, g)
         | Some k \<Rightarrow> (True, g\<lparr>tlshd_server_privkey := Some k\<rparr>)))"

definition tlshd_x509_retrieve_key_cb ::
  "gnutls_session \<Rightarrow> server_globals \<Rightarrow> int \<times> (nat \<times> byte list option \<times> byte list option) option" where
  "tlshd_x509_retrieve_key_cb session g =
     (if \<not> ses_certificate_type_x509 session then (- 1, None)
      else (0, Some (1, tlshd_server_cert g, tlshd_server_privkey g)))"

definition gnutls_session_get_ptr :: "gnutls_session \<Rightarrow> string option" where
  "gnutls_session_get_ptr session = ses_ptr session"

definition gnutls_certificate_verify_peers3 ::
  "gnutls_session \<Rightarrow> string option \<Rightarrow> int \<times> nat" where
  "gnutls_certificate_verify_peers3 session hostname = ses_verify_peers3 session"

text \<open>\<^verbatim>\<open>gnutls_certificate_get_peers(session, &tlshd_num_remote_peerids)\<close>: the count is
  written into the static variable when the library has a certificate list.\<close>

definition gnutls_certificate_get_peers ::
  "gnutls_session \<Rightarrow> server_globals \<Rightarrow> byte list list option \<times> server_globals" where
  "gnutls_certificate_get_peers session g =
     (case ses_peers session of
        None \<Rightarrow> (None, g)
      | Some certs \<Rightarrow> (Some certs, g\<lparr>tlshd_num_remote_peerids := length certs\<rparr>))"

text \<open>The loop that imports each offered certificate and stores the serial of its
  keyring entry. The index stays below the clamped count, which is at most the number of
  certificates and at most the size of the array.\<close>

function peerid_loop ::
  "server_env \<Rightarrow> string option \<Rightarrow> byte list list \<Rightarrow> nat \<Rightarrow> server_globals \<Rightarrow> server_globals" where
  "peerid_loop e hostname peercerts i g =
     (if i < tlshd_num_remote_peerids g then
        peerid_loop e hostname peercerts (Suc i)
          (g\<lparr>tlshd_remote_peerid :=
               (tlshd_remote_peerid g)[i := env_keyring_create_cert e (peercerts ! i) hostname]\<rparr>)
      else g)"
  by pat_completeness auto
termination
  by (relation "measure (\<lambda>(e, hostname, peercerts, i, g). tlshd_num_remote_peerids g - i)") auto

definition tlshd_server_x509_verify_function ::
  "server_env \<Rightarrow> gnutls_session \<Rightarrow> server_globals \<Rightarrow> int \<times> server_globals" where
  "tlshd_server_x509_verify_function e session g =
     (let hostname = gnutls_session_get_ptr session;
          (ret, status) = gnutls_certificate_verify_peers3 session hostname
      in if ret = GNUTLS_E_SUCCESS then
           (if status \<noteq> 0 then (GNUTLS_E_CERTIFICATE_ERROR, g)
            else
              (let (peercerts, g1) = gnutls_certificate_get_peers session g
               in case peercerts of
                    None \<Rightarrow> (GNUTLS_E_CERTIFICATE_ERROR, g1)
                  | Some certs \<Rightarrow>
                      if tlshd_num_remote_peerids g1 = 0 then (GNUTLS_E_CERTIFICATE_ERROR, g1)
                      else
                        (let g2 = (if tlshd_num_remote_peerids g1 > ARRAY_SIZE_tlshd_remote_peerid
                                   then g1\<lparr>tlshd_num_remote_peerids := ARRAY_SIZE_tlshd_remote_peerid\<rparr>
                                   else g1)
                         in (GNUTLS_E_SUCCESS, peerid_loop e hostname certs 0 g2))))
         else if ret = GNUTLS_E_NO_CERTIFICATE_FOUND then (GNUTLS_E_SUCCESS, g)
         else (GNUTLS_E_CERTIFICATE_ERROR, g))"

definition tlshd_server_psk_cb ::
  "server_env \<Rightarrow> gnutls_session \<Rightarrow> string \<Rightarrow> server_globals \<Rightarrow> world
     \<Rightarrow> int \<times> byte list option \<times> server_globals \<times> world" where
  "tlshd_server_psk_cb e session username g w =
     (let psk = env_keyctl_search e username;
          w1 = emit (Ev_keyctl_search username) w
      in if psk < 0 then (- 1, None, g, w1)
         else
           (case env_keyring_get_psk_key e psk of
              None \<Rightarrow> (- 1, None, g, w1)
            | Some k \<Rightarrow>
                (0, Some k,
                 g\<lparr>tlshd_remote_peerid := (tlshd_remote_peerid g)[0 := psk],
                   tlshd_num_remote_peerids := 1\<rparr>, w1)))"

subsection \<open>The library's handshake and the shared helper\<close>

definition tlshd_gnutls_priority_set ::
  "server_env \<Rightarrow> gnutls_session \<Rightarrow> tlshd_handshake_parms \<Rightarrow> int \<times> gnutls_session" where
  "tlshd_gnutls_priority_set e session parms =
     (let p = (if auth_mode parms = HANDSHAKE_AUTH_PSK
               then tlshd_gnutls_priority_psk (env_priorities e)
               else tlshd_gnutls_priority (env_priorities e))
      in (env_priority_set e p, session\<lparr>ses_priority := p\<rparr>))"

text \<open>\<^verbatim>\<open>gnutls_handshake\<close> belongs to the library. What the program can observe of it is
  its contract with the callbacks registered in \<^verbatim>\<open>server.c\<close>: it may fail before any
  callback runs (\<open>env_handshake_hello\<close>); with certificate credentials it asks the
  retrieve callback for the server's certificate and then runs the verify function, with
  PSK credentials it runs the PSK callback on the user name the remote claims; a callback
  that reports failure ends the handshake with an error; otherwise the rest of the
  handshake decides (\<open>env_handshake_finish\<close>). A negative return value is a failure.\<close>

definition gnutls_handshake ::
  "server_env \<Rightarrow> gnutls_session \<Rightarrow> server_globals \<Rightarrow> world \<Rightarrow> int \<times> server_globals \<times> world" where
  "gnutls_handshake e session g w =
     (let w1 = emit Ev_gnutls_handshake w
      in if env_handshake_hello e < 0 then (env_handshake_hello e, g, w1)
         else
           (case ses_credentials session of
              None \<Rightarrow> (GNUTLS_E_INSUFFICIENT_CREDENTIALS, g, w1)
            | Some GNUTLS_CRD_CERTIFICATE \<Rightarrow>
                (if fst (tlshd_x509_retrieve_key_cb session g) \<noteq> 0
                 then (GNUTLS_E_INSUFFICIENT_CREDENTIALS, g, w1)
                 else
                   (let (r, g1) = tlshd_server_x509_verify_function e session g
                    in if r \<noteq> 0 then (GNUTLS_E_CERTIFICATE_ERROR, g1, w1)
                       else (env_handshake_finish e, g1, w1)))
            | Some GNUTLS_CRD_PSK \<Rightarrow>
                (let (r, key, g1, w2) = tlshd_server_psk_cb e session (env_peer_username e) g w1
                 in if r < 0 then (GNUTLS_E_INSUFFICIENT_CREDENTIALS, g1, w2)
                    else (env_handshake_finish e, g1, w2))))"

text \<open>Modelled from the spec: \<^verbatim>\<open>tlshd_start_tls_handshake\<close> is called by
  \<^verbatim>\<open>server.c\<close> and defined in a file of the repository that is not among the sources.
  The specification (4.2) says that it "binds the session to the socket, selects and
  applies the priority configuration from 4.1, performs the protocol handshake to
  completion or failure, and - on success - invokes the Offload Installer (4.3) before
  returning", and that an attempt fails as soon as a step fails. The function returns
  nothing to \<^verbatim>\<open>server.c\<close>.\<close>

definition tlshd_start_tls_handshake ::
  "server_env \<Rightarrow> gnutls_session \<Rightarrow> tlshd_handshake_parms \<Rightarrow> server_globals \<Rightarrow> world
     \<Rightarrow> (server_globals \<times> world) option" where
  "tlshd_start_tls_handshake e session parms g w =
     (let session1 = gnutls_transport_set_int session (sockfd parms);
          (ret, session2) = tlshd_gnutls_priority_set e session1 parms
      in if ret \<noteq> GNUTLS_E_SUCCESS then Some (g, w)
         else
           (let (ret, g1, w1) = gnutls_handshake e session2 g w
            in if ret < 0 then Some (g1, w1)
               else
                 (case tlshd_initialize_ktls (env_cfg e) (env_kernel e) session2 w1 of
                    None \<Rightarrow> None
                  | Some (status, w2) \<Rightarrow> Some (g1, w2))))"

subsection \<open>\<^verbatim>\<open>server.c\<close>: the two handshakes and the entry point\<close>

definition gnutls_credentials_set ::
  "gnutls_session \<Rightarrow> gnutls_credentials_type_t \<Rightarrow> gnutls_session" where
  "gnutls_credentials_set session type = session\<lparr>ses_credentials := Some type\<rparr>"

definition gnutls_certificate_server_set_request ::
  "gnutls_session \<Rightarrow> gnutls_certificate_request_t \<Rightarrow> gnutls_session" where
  "gnutls_certificate_server_set_request session req = session\<lparr>ses_cert_request := req\<rparr>"

text \<open>\<open>Ev_allocate_credentials\<close> and \<open>Ev_gnutls_init\<close> are recorded when the allocation
  succeeded: an \<open>Ev_gnutls_init\<close> in the trace is a session that exists.\<close>

definition tlshd_server_x509_handshake ::
  "server_env \<Rightarrow> tlshd_handshake_parms \<Rightarrow> server_globals \<Rightarrow> world
     \<Rightarrow> (server_globals \<times> world) option" where
  "tlshd_server_x509_handshake e parms g w =
     (if env_certificate_allocate_credentials e \<noteq> GNUTLS_E_SUCCESS then Some (g, w)
      else
        (let w1 = emit (Ev_allocate_credentials GNUTLS_CRD_CERTIFICATE) w;
             out_free_creds = emit (Ev_free_credentials GNUTLS_CRD_CERTIFICATE)
         in if env_set_x509_system_trust e < 0 then Some (g, out_free_creds w1)
            else
              (let (ok, g1) = tlshd_x509_server_get_cert e parms g
               in if \<not> ok then Some (g1, out_free_creds w1)
                  else
                    (let (ok, g2) = tlshd_x509_server_get_privkey e parms g1
                     in if \<not> ok then Some (g2, out_free_creds w1)
                        else
                          (let (ret, session) = env_gnutls_init e
                           in if ret \<noteq> GNUTLS_E_SUCCESS then Some (g2, out_free_creds w1)
                              else
                                (let w2 = emit Ev_gnutls_init w1;
                                     session1 = gnutls_transport_set_int session (sockfd parms);
                                     session2 = gnutls_credentials_set session1 GNUTLS_CRD_CERTIFICATE;
                                     session3 = gnutls_certificate_server_set_request session2
                                                  GNUTLS_CERT_REQUEST
                                 in case tlshd_start_tls_handshake e session3 parms g2 w2 of
                                      None \<Rightarrow> None
                                    | Some (g3, w3) \<Rightarrow>
                                        Some (g3, out_free_creds (emit Ev_gnutls_deinit w3))))))))"

definition tlshd_server_psk_handshake ::
  "server_env \<Rightarrow> tlshd_handshake_parms \<Rightarrow> server_globals \<Rightarrow> world
     \<Rightarrow> (server_globals \<times> world) option" where
  "tlshd_server_psk_handshake e parms g w =
     (if env_psk_allocate_server_credentials e \<noteq> GNUTLS_E_SUCCESS then Some (g, w)
      else
        (let w1 = emit (Ev_allocate_credentials GNUTLS_CRD_PSK) w;
             out_free_creds = emit (Ev_free_credentials GNUTLS_CRD_PSK);
             (ret, session) = env_gnutls_init e
         in if ret \<noteq> GNUTLS_E_SUCCESS then Some (g, out_free_creds w1)
            else
              (let w2 = emit Ev_gnutls_init w1;
                   session1 = gnutls_transport_set_int session (sockfd parms);
                   session2 = gnutls_credentials_set session1 GNUTLS_CRD_PSK
               in case tlshd_start_tls_handshake e session2 parms g w2 of
                    None \<Rightarrow> None
                  | Some (g1, w3) \<Rightarrow> Some (g1, out_free_creds (emit Ev_gnutls_deinit w3)))))"

definition tlshd_serverhello_handshake ::
  "server_env \<Rightarrow> tlshd_handshake_parms \<Rightarrow> server_globals \<Rightarrow> world
     \<Rightarrow> (tlshd_handshake_parms \<times> server_globals \<times> world) option" where
  "tlshd_serverhello_handshake e parms g w =
     (if env_global_init e \<noteq> GNUTLS_E_SUCCESS then Some (parms, g, w)
      else
        (case (case auth_mode parms of
                 HANDSHAKE_AUTH_X509 \<Rightarrow> tlshd_server_x509_handshake e parms g w
               | HANDSHAKE_AUTH_PSK \<Rightarrow> tlshd_server_psk_handshake e parms g w
               | HANDSHAKE_AUTH_OTHER n \<Rightarrow> Some (g, w)) of
           None \<Rightarrow> None
         | Some (g1, w1) \<Rightarrow>
             Some (if tlshd_num_remote_peerids g1 \<noteq> 0
                   then parms\<lparr>num_remote_peerids := tlshd_num_remote_peerids g1,
                              remote_peerid := tlshd_remote_peerid g1\<rparr>
                   else parms,
                   g1, w1)))"

text \<open>The PeerIdentityList of the specification: the entries of the array below the
  count.\<close>

definition peer_identity_list :: "server_globals \<Rightarrow> int list" where
  "peer_identity_list g = take (tlshd_num_remote_peerids g) (tlshd_remote_peerid g)"

text \<open>The array has its declared size and the count does not exceed it.\<close>

definition peerids_wf :: "server_globals \<Rightarrow> bool" where
  "peerids_wf g \<longleftrightarrow> length (tlshd_remote_peerid g) = ARRAY_SIZE_tlshd_remote_peerid \<and>
     tlshd_num_remote_peerids g \<le> ARRAY_SIZE_tlshd_remote_peerid"

subsection \<open>Concrete inputs\<close>

text \<open>A small world to run the model in: a TLS 1.3 session on descriptor 3 that
  negotiated AES-128-GCM, with a 12-byte record IV, and a kernel that accepts every
  socket option.\<close>

definition example_record_state :: record_state where
  "example_record_state =
     \<lparr>rs_mac_key = [], rs_iv = [1, 2, 3, 4, 5, 6, 7, 8, 9, 10, 11, 12],
      rs_cipher_key = replicate 32 7, rs_seq_number = [0, 0, 0, 0, 0, 0, 0, 1]\<rparr>"

definition example_session :: gnutls_session where
  "example_session =
     \<lparr>ses_transport_recv = 3, ses_transport_send = 3, ses_ktls_enabled = 0,
      ses_record_state = (\<lambda>rd. (0, example_record_state)),
      ses_protocol_version = GNUTLS_TLS1_3, ses_cipher = GNUTLS_CIPHER_AES_128_GCM,
      ses_ptr = None, ses_verify_peers3 = (0, 0), ses_certificate_type_x509 = True,
      ses_peers = Some [[1], [2]], ses_credentials = None,
      ses_cert_request = GNUTLS_CERT_IGNORE, ses_priority = None\<rparr>"

definition accepting_kernel :: kernel where
  "accepting_kernel = (\<lambda>tr fd level optname optval. None)"

text \<open>The same session when the library reports kernel TLS active in both directions,
  and a kernel that refuses \<^verbatim>\<open>TCP_ULP\<close> with \<^verbatim>\<open>EINVAL\<close> (22).\<close>

definition offloaded_session :: gnutls_session where
  "offloaded_session = example_session\<lparr>ses_ktls_enabled := GNUTLS_KTLS_DUPLEX\<rparr>"

definition ulp_refusing_kernel :: kernel where
  "ulp_refusing_kernel =
     (\<lambda>tr fd level optname optval. if optname = TCP_ULP then Some 22 else None)"

text \<open>A kernel that accepts \<^verbatim>\<open>TCP_ULP\<close> and \<^verbatim>\<open>TLS_TX\<close> and refuses
  \<^verbatim>\<open>TLS_RX\<close> with \<^verbatim>\<open>EINVAL\<close>, and a session whose record state cannot be extracted
  for the receive direction.\<close>

definition rx_refusing_kernel :: kernel where
  "rx_refusing_kernel =
     (\<lambda>tr fd level optname optval. if optname = TLS_RX then Some 22 else None)"

definition rx_unextractable_session :: gnutls_session where
  "rx_unextractable_session =
     example_session\<lparr>ses_record_state :=
       (\<lambda>rd. (if rd = 0 then 0 else - 50, example_record_state))\<rparr>"

definition world_init :: world where
  "world_init = \<lparr>trace = [], errno = 0, live_priorities = []\<rparr>"

definition example_parms :: tlshd_handshake_parms where
  "example_parms =
     \<lparr>auth_mode = HANDSHAKE_AUTH_X509, sockfd = 3, x509_cert = 0, x509_privkey = 0,
      num_remote_peerids = 0, remote_peerid = []\<rparr>"

definition example_env :: server_env where
  "example_env =
     \<lparr>env_cfg = full_build, env_kernel = accepting_kernel,
      env_TLS_NO_CERT = 0, env_TLS_NO_PRIVKEY = 0,
      env_global_init = 0, env_certificate_allocate_credentials = 0,
      env_set_x509_system_trust = 1,
      env_keyring_get_cert = (\<lambda>serial. None), env_config_get_server_cert = Some [48],
      env_keyring_get_privkey = (\<lambda>serial. False), env_config_get_server_privkey = Some [49],
      env_psk_allocate_server_credentials = 0,
      env_gnutls_init = (0, example_session),
      env_keyctl_search = (\<lambda>username. - 1),
      env_keyring_get_psk_key = (\<lambda>serial. None),
      env_keyring_create_cert = (\<lambda>cert hostname. 1000 + int (length cert)),
      env_priorities = \<lparr>tlshd_gnutls_priority = Some 1, tlshd_gnutls_priority_psk = Some 2\<rparr>,
      env_priority_set = (\<lambda>p. 0),
      env_peer_username = ''alice'',
      env_handshake_hello = 0, env_handshake_finish = 0\<rparr>"

text \<open>A client that offers no certificate to a server that only requests one, and a PSK
  handshake; in \<open>example_env\<close> the keyring has no key for any user name.\<close>

definition no_certificate_env :: server_env where
  "no_certificate_env =
     example_env\<lparr>env_gnutls_init :=
       (0, example_session\<lparr>ses_verify_peers3 := (GNUTLS_E_NO_CERTIFICATE_FOUND, 0),
                            ses_peers := None\<rparr>)\<rparr>"

definition psk_parms :: tlshd_handshake_parms where
  "psk_parms = example_parms\<lparr>auth_mode := HANDSHAKE_AUTH_PSK\<rparr>"

section \<open>Properties\<close>

lemmas tls_sizes =
  TLS_CIPHER_AES_GCM_128_IV_SIZE_def TLS_CIPHER_AES_GCM_128_KEY_SIZE_def
  TLS_CIPHER_AES_GCM_128_SALT_SIZE_def TLS_CIPHER_AES_GCM_128_REC_SEQ_SIZE_def
  TLS_CIPHER_AES_GCM_256_IV_SIZE_def TLS_CIPHER_AES_GCM_256_KEY_SIZE_def
  TLS_CIPHER_AES_GCM_256_SALT_SIZE_def TLS_CIPHER_AES_GCM_256_REC_SEQ_SIZE_def
  TLS_CIPHER_AES_CCM_128_IV_SIZE_def TLS_CIPHER_AES_CCM_128_KEY_SIZE_def
  TLS_CIPHER_AES_CCM_128_SALT_SIZE_def TLS_CIPHER_AES_CCM_128_REC_SEQ_SIZE_def
  TLS_CIPHER_CHACHA20_POLY1305_IV_SIZE_def TLS_CIPHER_CHACHA20_POLY1305_KEY_SIZE_def
  TLS_CIPHER_CHACHA20_POLY1305_SALT_SIZE_def TLS_CIPHER_CHACHA20_POLY1305_REC_SEQ_SIZE_def

subsection \<open>The four installation functions against the single description\<close>

lemma set_aes_gcm128_refines:
  "tlshd_set_aes_gcm128_info cfg kern session sock rd w =
     install_direction_spec cfg kern session GNUTLS_CIPHER_AES_128_GCM sock rd w"
  by (cases "ses_record_state session rd")
     (auto simp add: tlshd_set_aes_gcm128_info_def install_direction_spec_def Let_def
      gnutls_record_get_state_def gnutls_protocol_get_version_def memcpy_def tls_sizes
      record_state_fits_def crypto_info_spec_def)

lemma set_aes_gcm256_refines:
  "tlshd_set_aes_gcm256_info cfg kern session sock rd w =
     install_direction_spec cfg kern session GNUTLS_CIPHER_AES_256_GCM sock rd w"
  by (cases "ses_record_state session rd")
     (auto simp add: tlshd_set_aes_gcm256_info_def install_direction_spec_def Let_def
      gnutls_record_get_state_def gnutls_protocol_get_version_def memcpy_def tls_sizes
      record_state_fits_def crypto_info_spec_def)

lemma set_aes_ccm128_refines:
  "tlshd_set_aes_ccm128_info cfg kern session sock rd w =
     install_direction_spec cfg kern session GNUTLS_CIPHER_AES_128_CCM sock rd w"
  by (cases "ses_record_state session rd")
     (auto simp add: tlshd_set_aes_ccm128_info_def install_direction_spec_def Let_def
      gnutls_record_get_state_def gnutls_protocol_get_version_def memcpy_def tls_sizes
      record_state_fits_def crypto_info_spec_def)

lemma set_chacha20_poly1305_refines:
  "tlshd_set_chacha20_poly1305_info cfg kern session sock rd w =
     install_direction_spec cfg kern session GNUTLS_CIPHER_CHACHA20_POLY1305 sock rd w"
  by (cases "ses_record_state session rd")
     (auto simp add: tlshd_set_chacha20_poly1305_info_def install_direction_spec_def Let_def
      gnutls_record_get_state_def gnutls_protocol_get_version_def memcpy_def tls_sizes
      record_state_fits_def crypto_info_spec_def)

lemma initialize_ktls_unfold:
  "tlshd_initialize_ktls cfg kern session w =
     (let (r, w1) = setsockopt kern (ses_transport_recv session) SOL_TCP TCP_ULP
                      (Opt_string ''tls'') w
      in if r = - 1 then Some (EIO, w1)
         else if kernel_supported cfg (ses_cipher session)
         then both_directions (install_direction_spec cfg kern session (ses_cipher session))
                (ses_transport_recv session) (ses_transport_send session) w1
         else Some (EIO, w1))"
proof -
  have eq: "install_direction_spec cfg kern session c = f" if "\<And>sock rd w. f sock rd w = install_direction_spec cfg kern session c sock rd w" for f c
    using that by (intro ext) simp
  show ?thesis
    by (cases "ses_cipher session")
       (simp_all add: tlshd_initialize_ktls_def gnutls_transport_get_int_def
        gnutls_transport_get_int2_def gnutls_cipher_get_def kernel_supported_def Let_def
        eq[OF set_aes_gcm128_refines] eq[OF set_aes_gcm256_refines]
        eq[OF set_aes_ccm128_refines] eq[OF set_chacha20_poly1305_refines]
        split: prod.splits)
qed

lemma setsockopt_cases:
  "setsockopt kern fd level optname optval w =
     (case kern (trace w) fd level optname optval of
        None \<Rightarrow> (0, w\<lparr>trace := trace w @ [Ev_setsockopt fd level optname optval]\<rparr>)
      | Some e \<Rightarrow> (- 1, w\<lparr>trace := trace w @ [Ev_setsockopt fd level optname optval], errno := e\<rparr>))"
  by (simp add: setsockopt_def Let_def split: option.splits)

lemma direction_trace:
  assumes "install_direction_spec cfg kern session (ses_cipher session) sock rd w = Some (b, w')"
  shows "\<exists>evs. trace w' = trace w @ evs \<and> set evs \<subseteq> direction_events session sock rd"
  using assms
  by (cases "ses_record_state session rd")
     (auto simp: install_direction_spec_def tlshd_setsockopt_def setsockopt_cases Let_def
      direction_events_def split: if_splits option.splits)

lemma both_directions_trace:
  assumes "both_directions (install_direction_spec cfg kern session (ses_cipher session))
             sockin sockout w = Some (ret, w')"
  shows "\<exists>evs. trace w' = trace w @ evs \<and>
           set evs \<subseteq> direction_events session sockout 0 \<union> direction_events session sockin 1"
proof -
  from assms obtain tx w1 where
    tx: "install_direction_spec cfg kern session (ses_cipher session) sockout 0 w = Some (tx, w1)"
    by (auto simp: both_directions_def split: Option.bind_splits)
  from direction_trace[OF tx] obtain evs1 where
    e1: "trace w1 = trace w @ evs1" "set evs1 \<subseteq> direction_events session sockout 0" by blast
  show ?thesis
  proof (cases tx)
    case False
    with assms tx have "w' = w1" by (simp add: both_directions_def)
    with e1 show ?thesis by auto
  next
    case True
    with assms tx obtain rx where
      rx: "install_direction_spec cfg kern session (ses_cipher session) sockin 1 w1 = Some (rx, w')"
      by (auto simp: both_directions_def split: Option.bind_splits)
    from direction_trace[OF rx] obtain evs2 where
      e2: "trace w' = trace w1 @ evs2" "set evs2 \<subseteq> direction_events session sockin 1" by blast
    from e1 e2 have "trace w' = trace w @ (evs1 @ evs2)" by simp
    moreover from e1 e2 have "set (evs1 @ evs2) \<subseteq>
        direction_events session sockout 0 \<union> direction_events session sockin 1" by auto
    ultimately show ?thesis by blast
  qed
qed

lemma initialize_ktls_trace:
  assumes "tlshd_initialize_ktls cfg kern session w = Some (ret, w')"
  shows "\<exists>evs. trace w' =
             trace w @ Ev_setsockopt (ses_transport_recv session) SOL_TCP TCP_ULP
                         (Opt_string ''tls'') # evs \<and>
           set evs \<subseteq> direction_events session (ses_transport_send session) 0 \<union>
                      direction_events session (ses_transport_recv session) 1"
proof -
  let ?ulp = "Ev_setsockopt (ses_transport_recv session) SOL_TCP TCP_ULP (Opt_string ''tls'')"
  obtain r w1 where so: "setsockopt kern (ses_transport_recv session) SOL_TCP TCP_ULP
                      (Opt_string ''tls'') w = (r, w1)" by (cases "setsockopt kern (ses_transport_recv session) SOL_TCP TCP_ULP
                      (Opt_string ''tls'') w")
  then have t1: "trace w1 = trace w @ [?ulp]"
    by (auto simp: setsockopt_cases split: option.splits)
  show ?thesis
  proof (cases "r \<noteq> - 1 \<and> kernel_supported cfg (ses_cipher session)")
    case False
    with assms so have "w' = w1"
      by (auto simp: initialize_ktls_unfold split: if_splits)
    with t1 show ?thesis by simp
  next
    case True
    with assms so have "both_directions (install_direction_spec cfg kern session (ses_cipher session))
                (ses_transport_recv session) (ses_transport_send session) w1 = Some (ret, w')"
      by (simp add: initialize_ktls_unfold)
    from both_directions_trace[OF this] t1 show ?thesis by auto
  qed
qed

subsection \<open>The installer\<close>

text \<open>Claim C8. If the kernel refuses the \<^verbatim>\<open>TCP_ULP\<close> option, the installer returns
  \<open>EIO\<close> at once: the only event it adds to the trace is that socket option, so no
  record state is extracted and no key material is installed for either direction.\<close>

theorem ulp_failure_is_fatal:
  assumes "kern (trace w) (gnutls_transport_get_int session) SOL_TCP TCP_ULP
             (Opt_string ''tls'') = Some e"
  shows "tlshd_initialize_ktls cfg kern session w =
           Some (EIO,
                 w\<lparr>trace := trace w @ [Ev_setsockopt (gnutls_transport_get_int session)
                                          SOL_TCP TCP_ULP (Opt_string ''tls'')],
                   errno := e\<rparr>) \<and>
         EIO \<noteq> 0"
  using assms
  by (simp add: tlshd_initialize_ktls_def setsockopt_cases EIO_def)

theorem ulp_failure_is_fatal_witness:
  "tlshd_initialize_ktls full_build ulp_refusing_kernel example_session world_init =
     Some (5, \<lparr>trace = [Ev_setsockopt 3 SOL_TCP TCP_ULP (Opt_string ''tls'')],
               errno = 22, live_priorities = []\<rparr>)"
  using ulp_failure_is_fatal[of ulp_refusing_kernel world_init example_session 22 full_build]
  by (simp add: ulp_refusing_kernel_def world_init_def example_session_def
      gnutls_transport_get_int_def EIO_def)

text \<open>Claim C2 as stated fails. With the library reporting kernel TLS active for both
  directions, the installer still sets \<^verbatim>\<open>TCP_ULP\<close> first: on a kernel that accepts it
  the run contains one socket-option call, and on a kernel that refuses it the installer
  returns \<open>EIO\<close>, not success.\<close>

theorem library_offload_counterexample:
  "tlshd_is_ktls_enabled full_build offloaded_session 0 \<and>
   tlshd_is_ktls_enabled full_build offloaded_session 1 \<and>
   map_option (sockopt_calls \<circ> snd)
     (tlshd_initialize_ktls full_build accepting_kernel offloaded_session world_init) =
     Some [Ev_setsockopt 3 SOL_TCP TCP_ULP (Opt_string ''tls'')] \<and>
   map_option fst
     (tlshd_initialize_ktls full_build ulp_refusing_kernel offloaded_session world_init) =
     Some EIO"
  by (simp add: initialize_ktls_unfold setsockopt_cases tlshd_is_ktls_enabled_def full_build_def
      offloaded_session_def example_session_def gnutls_transport_is_ktls_enabled_def
      GNUTLS_KTLS_DUPLEX_def GNUTLS_KTLS_RECV_def GNUTLS_KTLS_SEND_def
      GNUTLS_E_UNIMPLEMENTED_FEATURE_def accepting_kernel_def ulp_refusing_kernel_def
      world_init_def kernel_supported_def both_directions_def install_direction_spec_def
      sockopt_calls_def is_setsockopt_def Let_def)

text \<open>Claim C2, amended. If the library reports kernel TLS active for both directions,
  the installer makes exactly one socket-option call, the \<^verbatim>\<open>TCP_ULP\<close> option on the
  session's descriptor, and neither extracts a record state nor installs key material; it
  returns success when the kernel accepts that option and the negotiated cipher is one the
  build supports, and \<open>EIO\<close> otherwise.\<close>

theorem library_offload_skips_key_installation:
  assumes "tlshd_is_ktls_enabled cfg session 0"
      and "tlshd_is_ktls_enabled cfg session 1"
  shows "\<exists>w'. tlshd_initialize_ktls cfg kern session w =
                 Some (if kern (trace w) (gnutls_transport_get_int session) SOL_TCP TCP_ULP
                            (Opt_string ''tls'') = None \<and>
                          kernel_supported cfg (gnutls_cipher_get session)
                       then 0 else EIO, w') \<and>
              trace w' = trace w @ [Ev_setsockopt (gnutls_transport_get_int session)
                                      SOL_TCP TCP_ULP (Opt_string ''tls'')]"
  using assms
  by (cases "ses_record_state session 0"; cases "ses_record_state session 1")
     (auto simp: initialize_ktls_unfold setsockopt_cases both_directions_def
      install_direction_spec_def gnutls_transport_get_int_def gnutls_cipher_get_def Let_def
      split: option.splits)

theorem library_offload_skips_key_installation_witness:
  "\<exists>w'. tlshd_initialize_ktls full_build accepting_kernel offloaded_session world_init =
           Some (0, w') \<and>
         trace w' = [Ev_setsockopt 3 SOL_TCP TCP_ULP (Opt_string ''tls'')]"
proof -
  have e0: "tlshd_is_ktls_enabled full_build offloaded_session 0"
    and e1: "tlshd_is_ktls_enabled full_build offloaded_session 1"
    by (simp_all add: tlshd_is_ktls_enabled_def full_build_def offloaded_session_def
        example_session_def gnutls_transport_is_ktls_enabled_def GNUTLS_KTLS_DUPLEX_def
        GNUTLS_KTLS_RECV_def GNUTLS_KTLS_SEND_def GNUTLS_E_UNIMPLEMENTED_FEATURE_def)
  show ?thesis
    using library_offload_skips_key_installation[OF e0 e1, of accepting_kernel world_init]
    by (simp add: accepting_kernel_def kernel_supported_def full_build_def gnutls_cipher_get_def
        offloaded_session_def example_session_def world_init_def gnutls_transport_get_int_def)
qed

lemma initialize_ktls_defined:
  assumes "record_state_fits (ses_cipher session) (ses_protocol_version session)
             (snd (ses_record_state session 0))"
      and "record_state_fits (ses_cipher session) (ses_protocol_version session)
             (snd (ses_record_state session 1))"
  shows "\<exists>ret w'. tlshd_initialize_ktls cfg kern session w = Some (ret, w')"
  using assms
  by (cases "ses_record_state session 0"; cases "ses_record_state session 1")
     (auto simp: initialize_ktls_unfold both_directions_def install_direction_spec_def
      tlshd_setsockopt_def Let_def split: prod.splits)

text \<open>What one direction does, in terms of what the library and the kernel answer: it
  succeeds when the library already handles the direction, or when the record state is
  extracted and the kernel accepts the socket option; the trace grows by the extraction
  and by the socket option accordingly.\<close>

lemma direction_outcome:
  assumes "install_direction_spec cfg kern session c sock rd w = Some (b, w')"
  shows "(b \<longleftrightarrow>
            tlshd_is_ktls_enabled cfg session rd \<or>
            fst (ses_record_state session rd) = GNUTLS_E_SUCCESS \<and>
            kern (trace w @ [Ev_record_get_state rd]) sock SOL_TLS
              (if rd \<noteq> 0 then TLS_RX else TLS_TX)
              (Opt_crypto_info (crypto_info_spec c (ses_protocol_version session)
                 (snd (ses_record_state session rd)))) = None) \<and>
         trace w' =
           (if tlshd_is_ktls_enabled cfg session rd then trace w
            else if fst (ses_record_state session rd) \<noteq> GNUTLS_E_SUCCESS
            then trace w @ [Ev_record_get_state rd]
            else trace w @
                 [Ev_record_get_state rd,
                  Ev_setsockopt sock SOL_TLS (if rd \<noteq> 0 then TLS_RX else TLS_TX)
                    (Opt_crypto_info (crypto_info_spec c (ses_protocol_version session)
                       (snd (ses_record_state session rd))))])"
proof (cases "tlshd_is_ktls_enabled cfg session rd")
  case True
  with assms show ?thesis
    by (auto simp: install_direction_spec_def Let_def split: prod.splits)
next
  case off: False
  show ?thesis
  proof (cases "fst (ses_record_state session rd) = GNUTLS_E_SUCCESS")
    case False
    with off assms show ?thesis
      by (auto simp: install_direction_spec_def Let_def split: prod.splits)
  next
    case True
    let ?info = "crypto_info_spec c (ses_protocol_version session) (snd (ses_record_state session rd))"
    let ?w1 = "w\<lparr>trace := trace w @ [Ev_record_get_state rd]\<rparr>"
    from off True assms have r: "tlshd_setsockopt kern sock rd ?info ?w1 = (b, w')"
      by (simp add: install_direction_spec_def Let_def split: prod.splits if_splits)
    show ?thesis
    proof (cases "kern (trace w @ [Ev_record_get_state rd]) sock SOL_TLS
                    (if rd \<noteq> 0 then TLS_RX else TLS_TX) (Opt_crypto_info ?info)")
      case None
      with r have "b" and "w' = ?w1\<lparr>trace := trace ?w1 @
          [Ev_setsockopt sock SOL_TLS (if rd \<noteq> 0 then TLS_RX else TLS_TX) (Opt_crypto_info ?info)]\<rparr>"
        by (auto simp: tlshd_setsockopt_def setsockopt_cases)
      with off True None show ?thesis by simp
    next
      case (Some e)
      with r have "\<not> b" and "w' = ?w1\<lparr>trace := trace ?w1 @
          [Ev_setsockopt sock SOL_TLS (if rd \<noteq> 0 then TLS_RX else TLS_TX) (Opt_crypto_info ?info)],
          errno := e\<rparr>"
        by (auto simp: tlshd_setsockopt_def setsockopt_cases)
      with off True Some show ?thesis by simp
    qed
  qed
qed

text \<open>Claim C7. When the \<^verbatim>\<open>TCP_ULP\<close> option was set and the negotiated cipher is
  one the build supports, the installer returns 0 exactly when key material is installed
  for the send and for the receive direction, and \<open>EIO\<close> otherwise. A direction is
  installed when the library already handles it, or when its record state is extracted
  and the kernel accepts the \<^verbatim>\<open>TLS_TX\<close> (\<^verbatim>\<open>TLS_RX\<close>) option with the structure;
  \<open>tr1\<close> and \<open>tr2\<close> are the calls made before the send and before the receive
  direction. So a failed extraction or a refused option, in either direction, gives
  \<open>EIO\<close>.\<close>

theorem install_succeeds_iff_both_directions:
  assumes ulp: "kern (trace w) (gnutls_transport_get_int session) SOL_TCP TCP_ULP
                  (Opt_string ''tls'') = None"
      and sup: "kernel_supported cfg (gnutls_cipher_get session)"
      and run: "tlshd_initialize_ktls cfg kern session w = Some (ret, w')"
  shows "let tx_info = crypto_info_spec (gnutls_cipher_get session)
                         (gnutls_protocol_get_version session) (snd (ses_record_state session 0));
             rx_info = crypto_info_spec (gnutls_cipher_get session)
                         (gnutls_protocol_get_version session) (snd (ses_record_state session 1));
             tr1 = trace w @ [Ev_setsockopt (gnutls_transport_get_int session) SOL_TCP TCP_ULP
                                (Opt_string ''tls'')];
             tx_ok = (tlshd_is_ktls_enabled cfg session 0 \<or>
                      fst (ses_record_state session 0) = GNUTLS_E_SUCCESS \<and>
                      kern (tr1 @ [Ev_record_get_state 0]) (ses_transport_send session)
                        SOL_TLS TLS_TX (Opt_crypto_info tx_info) = None);
             tr2 = (if tlshd_is_ktls_enabled cfg session 0 then tr1
                    else tr1 @ [Ev_record_get_state 0,
                                Ev_setsockopt (ses_transport_send session) SOL_TLS TLS_TX
                                  (Opt_crypto_info tx_info)]);
             rx_ok = (tlshd_is_ktls_enabled cfg session 1 \<or>
                      fst (ses_record_state session 1) = GNUTLS_E_SUCCESS \<and>
                      kern (tr2 @ [Ev_record_get_state 1]) (ses_transport_recv session)
                        SOL_TLS TLS_RX (Opt_crypto_info rx_info) = None)
         in (ret = 0 \<longleftrightarrow> tx_ok \<and> rx_ok) \<and> (ret \<noteq> 0 \<longrightarrow> ret = EIO) \<and> EIO \<noteq> 0"
proof -
  let ?c = "ses_cipher session" and ?v = "ses_protocol_version session"
  let ?ulp = "Ev_setsockopt (ses_transport_recv session) SOL_TCP TCP_ULP (Opt_string ''tls'')"
  let ?w1 = "w\<lparr>trace := trace w @ [?ulp]\<rparr>"
  let ?txi = "crypto_info_spec ?c ?v (snd (ses_record_state session 0))"
  let ?rxi = "crypto_info_spec ?c ?v (snd (ses_record_state session 1))"
  let ?tr1 = "trace w @ [?ulp]"
  let ?tx_ok = "tlshd_is_ktls_enabled cfg session 0 \<or>
      fst (ses_record_state session 0) = GNUTLS_E_SUCCESS \<and>
      kern (?tr1 @ [Ev_record_get_state 0]) (ses_transport_send session) SOL_TLS TLS_TX
        (Opt_crypto_info ?txi) = None"
  let ?tr2 = "if tlshd_is_ktls_enabled cfg session 0 then ?tr1
      else ?tr1 @ [Ev_record_get_state 0,
             Ev_setsockopt (ses_transport_send session) SOL_TLS TLS_TX (Opt_crypto_info ?txi)]"
  let ?rx_ok = "tlshd_is_ktls_enabled cfg session 1 \<or>
      fst (ses_record_state session 1) = GNUTLS_E_SUCCESS \<and>
      kern (?tr2 @ [Ev_record_get_state 1]) (ses_transport_recv session) SOL_TLS TLS_RX
        (Opt_crypto_info ?rxi) = None"
  from sup have sup': "kernel_supported cfg ?c" by (simp add: gnutls_cipher_get_def)
  from ulp have so: "setsockopt kern (ses_transport_recv session) SOL_TCP TCP_ULP
                  (Opt_string ''tls'') w = (0, ?w1)"
    by (simp add: setsockopt_cases gnutls_transport_get_int_def)
  from run so sup' have bd: "both_directions (install_direction_spec cfg kern session ?c)
      (ses_transport_recv session) (ses_transport_send session) ?w1 = Some (ret, w')"
    by (simp add: initialize_ktls_unfold)
  then obtain tx w2 where
    tx: "install_direction_spec cfg kern session ?c (ses_transport_send session) 0 ?w1 = Some (tx, w2)"
    by (auto simp: both_directions_def split: Option.bind_splits)
  from direction_outcome[OF tx] have txiff: "tx \<longleftrightarrow> ?tx_ok"
    by simp
  have main: "(ret = 0 \<longleftrightarrow> ?tx_ok \<and> ?rx_ok) \<and> (ret \<noteq> 0 \<longrightarrow> ret = EIO)"
  proof (cases tx)
    case False
    with bd tx have "ret = EIO" by (auto simp: both_directions_def)
    with False txiff show ?thesis by (simp add: EIO_def)
  next
    case True
    with bd tx obtain rx where
      rx: "install_direction_spec cfg kern session ?c (ses_transport_recv session) 1 w2 = Some (rx, w')"
      and ret: "ret = (if rx then 0 else EIO)"
      by (auto simp: both_directions_def split: Option.bind_splits)
    from True txiff have ok: "?tx_ok" by simp
    have tr2: "trace w2 = ?tr2"
    proof (cases "tlshd_is_ktls_enabled cfg session 0")
      case True
      with direction_outcome[OF tx] show ?thesis by simp
    next
      case False
      with ok have "fst (ses_record_state session 0) = GNUTLS_E_SUCCESS" by simp
      with False direction_outcome[OF tx] show ?thesis by simp
    qed
    from direction_outcome[OF rx] have rxiff: "rx \<longleftrightarrow> ?rx_ok"
      unfolding tr2 by simp
    from ok rxiff ret show ?thesis by (simp add: EIO_def)
  qed
  show ?thesis
    unfolding Let_def gnutls_cipher_get_def gnutls_protocol_get_version_def
      gnutls_transport_get_int_def
    using main by (simp add: EIO_def)
qed


text \<open>Three runs: both directions installed; the kernel refuses \<^verbatim>\<open>TLS_RX\<close>; the
  record state of the receive direction cannot be extracted.\<close>

lemma example_install_run:
  "tlshd_initialize_ktls full_build accepting_kernel
     (example_session\<lparr>ses_protocol_version := v\<rparr>) world_init =
   Some (0,
     \<lparr>trace =
        [Ev_setsockopt 3 SOL_TCP TCP_ULP (Opt_string ''tls''),
         Ev_record_get_state 0,
         Ev_setsockopt 3 SOL_TLS TLS_TX
           (Opt_crypto_info (crypto_info_spec GNUTLS_CIPHER_AES_128_GCM v example_record_state)),
         Ev_record_get_state 1,
         Ev_setsockopt 3 SOL_TLS TLS_RX
           (Opt_crypto_info (crypto_info_spec GNUTLS_CIPHER_AES_128_GCM v example_record_state))],
      errno = 0, live_priorities = []\<rparr>)"
  by (simp add: initialize_ktls_unfold setsockopt_cases both_directions_def
      install_direction_spec_def tlshd_setsockopt_def tlshd_is_ktls_enabled_def
      gnutls_transport_is_ktls_enabled_def GNUTLS_KTLS_RECV_def GNUTLS_KTLS_SEND_def
      GNUTLS_E_UNIMPLEMENTED_FEATURE_def GNUTLS_E_SUCCESS_def record_state_fits_def
      example_session_def example_record_state_def accepting_kernel_def world_init_def
      full_build_def kernel_supported_def Let_def)

lemma rx_refused_run:
  "tlshd_initialize_ktls full_build rx_refusing_kernel example_session world_init =
   Some (EIO,
     \<lparr>trace =
        [Ev_setsockopt 3 SOL_TCP TCP_ULP (Opt_string ''tls''),
         Ev_record_get_state 0,
         Ev_setsockopt 3 SOL_TLS TLS_TX
           (Opt_crypto_info
              (crypto_info_spec GNUTLS_CIPHER_AES_128_GCM GNUTLS_TLS1_3 example_record_state)),
         Ev_record_get_state 1,
         Ev_setsockopt 3 SOL_TLS TLS_RX
           (Opt_crypto_info
              (crypto_info_spec GNUTLS_CIPHER_AES_128_GCM GNUTLS_TLS1_3 example_record_state))],
      errno = 22, live_priorities = []\<rparr>)"
  by (simp add: initialize_ktls_unfold setsockopt_cases both_directions_def
      install_direction_spec_def tlshd_setsockopt_def tlshd_is_ktls_enabled_def
      gnutls_transport_is_ktls_enabled_def GNUTLS_KTLS_RECV_def GNUTLS_KTLS_SEND_def
      GNUTLS_E_UNIMPLEMENTED_FEATURE_def GNUTLS_E_SUCCESS_def record_state_fits_def
      example_session_def example_record_state_def rx_refusing_kernel_def world_init_def
      full_build_def kernel_supported_def Let_def)

lemma rx_unextractable_run:
  "tlshd_initialize_ktls full_build accepting_kernel rx_unextractable_session world_init =
   Some (EIO,
     \<lparr>trace =
        [Ev_setsockopt 3 SOL_TCP TCP_ULP (Opt_string ''tls''),
         Ev_record_get_state 0,
         Ev_setsockopt 3 SOL_TLS TLS_TX
           (Opt_crypto_info
              (crypto_info_spec GNUTLS_CIPHER_AES_128_GCM GNUTLS_TLS1_3 example_record_state)),
         Ev_record_get_state 1],
      errno = 0, live_priorities = []\<rparr>)"
  by (simp add: initialize_ktls_unfold setsockopt_cases both_directions_def
      install_direction_spec_def tlshd_setsockopt_def tlshd_is_ktls_enabled_def
      gnutls_transport_is_ktls_enabled_def GNUTLS_KTLS_RECV_def GNUTLS_KTLS_SEND_def
      GNUTLS_E_UNIMPLEMENTED_FEATURE_def GNUTLS_E_SUCCESS_def record_state_fits_def
      rx_unextractable_session_def
      example_session_def example_record_state_def accepting_kernel_def world_init_def
      full_build_def kernel_supported_def Let_def)

theorem install_succeeds_iff_both_directions_witness:
  "map_option fst
     (tlshd_initialize_ktls full_build accepting_kernel example_session world_init) = Some 0 \<and>
   map_option fst
     (tlshd_initialize_ktls full_build rx_refusing_kernel example_session world_init) = Some EIO \<and>
   map_option fst
     (tlshd_initialize_ktls full_build accepting_kernel rx_unextractable_session world_init) =
     Some EIO"
proof -
  have sup: "kernel_supported full_build (gnutls_cipher_get example_session)"
    "kernel_supported full_build (gnutls_cipher_get rx_unextractable_session)"
    by (simp_all add: kernel_supported_def full_build_def gnutls_cipher_get_def
        example_session_def rx_unextractable_session_def)
  have ulp: "accepting_kernel (trace world_init) (gnutls_transport_get_int example_session)
               SOL_TCP TCP_ULP (Opt_string ''tls'') = None"
    "rx_refusing_kernel (trace world_init) (gnutls_transport_get_int example_session)
               SOL_TCP TCP_ULP (Opt_string ''tls'') = None"
    "accepting_kernel (trace world_init) (gnutls_transport_get_int rx_unextractable_session)
               SOL_TCP TCP_ULP (Opt_string ''tls'') = None"
    by (simp_all add: accepting_kernel_def rx_refusing_kernel_def)
  have v: "example_session\<lparr>ses_protocol_version := GNUTLS_TLS1_3\<rparr> = example_session"
    by (simp add: example_session_def)
  note run1 = example_install_run[of GNUTLS_TLS1_3, unfolded v]
  show ?thesis
    using install_succeeds_iff_both_directions[OF ulp(1) sup(1) run1]
      install_succeeds_iff_both_directions[OF ulp(2) sup(1) rx_refused_run]
      install_succeeds_iff_both_directions[OF ulp(3) sup(2) rx_unextractable_run]
      run1 rx_refused_run rx_unextractable_run
    by (simp add: EIO_def)
qed


lemma initialize_ktls_directions:
  assumes run: "tlshd_initialize_ktls cfg kern session w = Some (ret, w')"
      and ulp: "kern (trace w) (ses_transport_recv session) SOL_TCP TCP_ULP
                  (Opt_string ''tls'') = None"
      and sup: "kernel_supported cfg (ses_cipher session)"
  shows "\<exists>tx w2.
           install_direction_spec cfg kern session (ses_cipher session)
             (ses_transport_send session) 0
             (w\<lparr>trace := trace w @ [Ev_setsockopt (ses_transport_recv session) SOL_TCP TCP_ULP
                                      (Opt_string ''tls'')]\<rparr>) = Some (tx, w2) \<and>
           (if tx
            then \<exists>rx. install_direction_spec cfg kern session (ses_cipher session)
                        (ses_transport_recv session) 1 w2 = Some (rx, w') \<and>
                      ret = (if rx then 0 else EIO)
            else w' = w2 \<and> ret = EIO)"
proof -
  let ?w1 = "w\<lparr>trace := trace w @ [Ev_setsockopt (ses_transport_recv session) SOL_TCP TCP_ULP
                              (Opt_string ''tls'')]\<rparr>"
  from ulp have so: "setsockopt kern (ses_transport_recv session) SOL_TCP TCP_ULP
                  (Opt_string ''tls'') w = (0, ?w1)"
    by (simp add: setsockopt_cases)
  from run so sup have bd: "both_directions (install_direction_spec cfg kern session (ses_cipher session))
      (ses_transport_recv session) (ses_transport_send session) ?w1 = Some (ret, w')"
    by (simp add: initialize_ktls_unfold)
  then obtain tx w2 where
    tx: "install_direction_spec cfg kern session (ses_cipher session)
           (ses_transport_send session) 0 ?w1 = Some (tx, w2)"
    by (auto simp: both_directions_def split: Option.bind_splits)
  show ?thesis
  proof (cases tx)
    case False
    with bd tx have "w' = w2 \<and> ret = EIO" by (auto simp: both_directions_def)
    with tx False show ?thesis by auto
  next
    case True
    with bd tx obtain rx where
      "install_direction_spec cfg kern session (ses_cipher session)
         (ses_transport_recv session) 1 w2 = Some (rx, w')"
      "ret = (if rx then 0 else EIO)"
      by (auto simp: both_directions_def split: Option.bind_splits)
    with tx True show ?thesis by auto
  qed
qed

lemma initialize_ktls_success:
  assumes "tlshd_initialize_ktls cfg kern session w = Some (0, w')"
  shows "kern (trace w) (ses_transport_recv session) SOL_TCP TCP_ULP (Opt_string ''tls'') = None \<and>
         kernel_supported cfg (ses_cipher session)"
  using assms
  by (auto simp: initialize_ktls_unfold setsockopt_cases EIO_def split: option.splits if_splits)

text \<open>Claim C1. The installer hands the kernel a structure, and every structure it hands
  over follows the version rule. Existence: when \<^verbatim>\<open>TCP_ULP\<close> is accepted, the cipher
  is supported, the library does not handle the send direction itself and the record
  state is extracted, the run contains a \<^verbatim>\<open>TLS_TX\<close> option with a structure; when the
  installer returns 0 and the library does not handle the receive direction, it contains
  a \<^verbatim>\<open>TLS_RX\<close> option with a structure. Rule, for every structure passed with
  \<^verbatim>\<open>TLS_TX\<close> or \<^verbatim>\<open>TLS_RX\<close>, where \<open>st\<close> is the record state extracted for that
  direction: for AES-GCM and AES-CCM under TLS 1.2 the version field is the TLS 1.2
  constant and the IV field is the 8 bytes of the sequence number; under TLS 1.3 the IV
  field is the 8 bytes of the extracted IV after the salt, whose size is 4; for
  ChaCha20-Poly1305 the IV field is the 12 bytes of the extracted IV, whatever the
  version.\<close>

theorem installed_iv_by_version:
  assumes run: "tlshd_initialize_ktls cfg kern session w = Some (ret, w')"
  shows "(kern (trace w) (gnutls_transport_get_int session) SOL_TCP TCP_ULP
            (Opt_string ''tls'') = None \<and>
          kernel_supported cfg (gnutls_cipher_get session) \<and>
          \<not> tlshd_is_ktls_enabled cfg session 0 \<and>
          fst (ses_record_state session 0) = GNUTLS_E_SUCCESS \<longrightarrow>
            (\<exists>info. Ev_setsockopt (ses_transport_send session) SOL_TLS TLS_TX
                      (Opt_crypto_info info) \<in> set (drop (length (trace w)) (trace w')))) \<and>
         (ret = 0 \<and> \<not> tlshd_is_ktls_enabled cfg session 1 \<longrightarrow>
            (\<exists>info. Ev_setsockopt (ses_transport_recv session) SOL_TLS TLS_RX
                      (Opt_crypto_info info) \<in> set (drop (length (trace w)) (trace w')))) \<and>
         (\<forall>fd optname info st.
            Ev_setsockopt fd SOL_TLS optname (Opt_crypto_info info)
              \<in> set (drop (length (trace w)) (trace w')) \<and>
            st = snd (ses_record_state session (if optname = TLS_RX then 1 else 0)) \<longrightarrow>
            (gnutls_cipher_get session \<in>
               {GNUTLS_CIPHER_AES_128_GCM, GNUTLS_CIPHER_AES_256_GCM, GNUTLS_CIPHER_AES_128_CCM} \<longrightarrow>
               (gnutls_protocol_get_version session = GNUTLS_TLS1_2 \<longrightarrow>
                  ci_version info = TLS_1_2_VERSION \<and> ci_iv info = take 8 (rs_seq_number st)) \<and>
               (gnutls_protocol_get_version session = GNUTLS_TLS1_3 \<longrightarrow>
                  ci_iv info =
                    take 8 (drop (cipher_salt_size (gnutls_cipher_get session)) (rs_iv st)) \<and>
                  cipher_salt_size (gnutls_cipher_get session) = 4)) \<and>
            (gnutls_cipher_get session = GNUTLS_CIPHER_CHACHA20_POLY1305 \<longrightarrow>
               ci_iv info = take 12 (rs_iv st)))"
proof (intro conjI impI allI)
  let ?c = "ses_cipher session" and ?v = "ses_protocol_version session"
  let ?ulp = "Ev_setsockopt (ses_transport_recv session) SOL_TCP TCP_ULP (Opt_string ''tls'')"
  let ?w1 = "w\<lparr>trace := trace w @ [?ulp]\<rparr>"
  let ?txe = "Ev_setsockopt (ses_transport_send session) SOL_TLS TLS_TX
                (Opt_crypto_info (crypto_info_spec ?c ?v (snd (ses_record_state session 0))))"
  let ?rxe = "Ev_setsockopt (ses_transport_recv session) SOL_TLS TLS_RX
                (Opt_crypto_info (crypto_info_spec ?c ?v (snd (ses_record_state session 1))))"
  {
    assume h: "kern (trace w) (gnutls_transport_get_int session) SOL_TCP TCP_ULP
            (Opt_string ''tls'') = None \<and>
          kernel_supported cfg (gnutls_cipher_get session) \<and>
          \<not> tlshd_is_ktls_enabled cfg session 0 \<and>
          fst (ses_record_state session 0) = GNUTLS_E_SUCCESS"
    then have ulp: "kern (trace w) (ses_transport_recv session) SOL_TCP TCP_ULP
                  (Opt_string ''tls'') = None"
      and sup: "kernel_supported cfg ?c"
      and off: "\<not> tlshd_is_ktls_enabled cfg session 0"
      and ext: "fst (ses_record_state session 0) = GNUTLS_E_SUCCESS"
      by (simp_all add: gnutls_transport_get_int_def gnutls_cipher_get_def)
    from initialize_ktls_directions[OF run ulp sup] obtain tx w2 where
      tx: "install_direction_spec cfg kern session ?c (ses_transport_send session) 0 ?w1 = Some (tx, w2)"
      and rest: "if tx
            then \<exists>rx. install_direction_spec cfg kern session ?c
                        (ses_transport_recv session) 1 w2 = Some (rx, w') \<and>
                      ret = (if rx then 0 else EIO)
            else w' = w2 \<and> ret = EIO"
      by blast
    from direction_outcome[OF tx] off ext have t2: "trace w2 = trace w @ [?ulp, Ev_record_get_state 0, ?txe]"
      by simp
    have "\<exists>evs. trace w' = trace w2 @ evs"
    proof (cases tx)
      case False
      with rest show ?thesis by simp
    next
      case True
      with rest obtain rx where "install_direction_spec cfg kern session ?c
                        (ses_transport_recv session) 1 w2 = Some (rx, w')" by auto
      from direction_trace[OF this] show ?thesis by blast
    qed
    then obtain evs where "trace w' = trace w @ [?ulp, Ev_record_get_state 0, ?txe] @ evs"
      using t2 by auto
    then have "?txe \<in> set (drop (length (trace w)) (trace w'))" by simp
    then show "\<exists>info. Ev_setsockopt (ses_transport_send session) SOL_TLS TLS_TX
                      (Opt_crypto_info info) \<in> set (drop (length (trace w)) (trace w'))"
      by blast
  }
  {
    assume h: "ret = 0 \<and> \<not> tlshd_is_ktls_enabled cfg session 1"
    with run have run0: "tlshd_initialize_ktls cfg kern session w = Some (0, w')" by simp
    note s = initialize_ktls_success[OF run0]
    from initialize_ktls_directions[OF run0 s[THEN conjunct1] s[THEN conjunct2]] obtain tx w2 where
      tx: "install_direction_spec cfg kern session ?c (ses_transport_send session) 0 ?w1 = Some (tx, w2)"
      and rest: "if tx
            then \<exists>rx. install_direction_spec cfg kern session ?c
                        (ses_transport_recv session) 1 w2 = Some (rx, w') \<and>
                      (0::int) = (if rx then 0 else EIO)
            else w' = w2 \<and> (0::int) = EIO"
      by blast
    from rest have "tx" by (auto simp: EIO_def split: if_splits)
    with rest obtain rx where
      rx: "install_direction_spec cfg kern session ?c (ses_transport_recv session) 1 w2 = Some (rx, w')"
      and "(0::int) = (if rx then 0 else EIO)" by auto
    then have "rx" by (auto simp: EIO_def split: if_splits)
    with direction_outcome[OF rx] h have "trace w' = trace w2 @ [Ev_record_get_state 1, ?rxe]"
      by (auto split: if_splits)
    moreover from direction_trace[OF tx] obtain evs where "trace w2 = trace ?w1 @ evs" by blast
    ultimately have "trace w' = trace w @ ([?ulp] @ evs @ [Ev_record_get_state 1]) @ [?rxe]"
      by simp
    then have "?rxe \<in> set (drop (length (trace w)) (trace w'))" by simp
    then show "\<exists>info. Ev_setsockopt (ses_transport_recv session) SOL_TLS TLS_RX
                      (Opt_crypto_info info) \<in> set (drop (length (trace w)) (trace w'))"
      by blast
  }
  fix fd optname info st
  assume a: "Ev_setsockopt fd SOL_TLS optname (Opt_crypto_info info)
              \<in> set (drop (length (trace w)) (trace w')) \<and>
            st = snd (ses_record_state session (if optname = TLS_RX then 1 else 0))"
  from initialize_ktls_trace[OF run] obtain evs where
    tr: "trace w' = trace w @ ?ulp # evs"
    and sub: "set evs \<subseteq> direction_events session (ses_transport_send session) 0 \<union>
                      direction_events session (ses_transport_recv session) 1"
    by blast
  from a tr have "Ev_setsockopt fd SOL_TLS optname (Opt_crypto_info info) \<in> set evs"
    by simp
  with sub have "Ev_setsockopt fd SOL_TLS optname (Opt_crypto_info info)
      \<in> direction_events session (ses_transport_send session) 0 \<union>
        direction_events session (ses_transport_recv session) 1"
    by blast
  then have info: "info = crypto_info_spec ?c ?v st"
    using a by (auto simp: direction_events_def)
  {
    assume "gnutls_cipher_get session \<in>
               {GNUTLS_CIPHER_AES_128_GCM, GNUTLS_CIPHER_AES_256_GCM, GNUTLS_CIPHER_AES_128_CCM}"
      and "gnutls_protocol_get_version session = GNUTLS_TLS1_2"
    then show "ci_version info = TLS_1_2_VERSION" and "ci_iv info = take 8 (rs_seq_number st)"
      by (auto simp: info crypto_info_spec_def gnutls_cipher_get_def gnutls_protocol_get_version_def)
  }
  {
    assume "gnutls_cipher_get session \<in>
               {GNUTLS_CIPHER_AES_128_GCM, GNUTLS_CIPHER_AES_256_GCM, GNUTLS_CIPHER_AES_128_CCM}"
      and "gnutls_protocol_get_version session = GNUTLS_TLS1_3"
    then show "ci_iv info = take 8 (drop (cipher_salt_size (gnutls_cipher_get session)) (rs_iv st))"
      and "cipher_salt_size (gnutls_cipher_get session) = 4"
      by (auto simp: info crypto_info_spec_def gnutls_cipher_get_def gnutls_protocol_get_version_def)
  }
  {
    assume "gnutls_cipher_get session = GNUTLS_CIPHER_CHACHA20_POLY1305"
    then show "ci_iv info = take 12 (rs_iv st)"
      by (auto simp: info crypto_info_spec_def gnutls_cipher_get_def gnutls_protocol_get_version_def)
  }
qed


theorem installed_iv_by_version_witness:
  "(\<exists>ret w' info.
      tlshd_initialize_ktls full_build accepting_kernel
        (example_session\<lparr>ses_protocol_version := GNUTLS_TLS1_2\<rparr>) world_init = Some (ret, w') \<and>
      Ev_setsockopt 3 SOL_TLS TLS_TX (Opt_crypto_info info) \<in> set (trace w') \<and>
      ci_version info = TLS_1_2_VERSION \<and>
      ci_iv info = [0, 0, 0, 0, 0, 0, 0, 1]) \<and>
   (\<exists>ret w' info.
      tlshd_initialize_ktls full_build accepting_kernel
        (example_session\<lparr>ses_protocol_version := GNUTLS_TLS1_3\<rparr>) world_init = Some (ret, w') \<and>
      Ev_setsockopt 3 SOL_TLS TLS_RX (Opt_crypto_info info) \<in> set (trace w') \<and>
      ci_iv info = [5, 6, 7, 8, 9, 10, 11, 12])"
proof -
  let ?s2 = "example_session\<lparr>ses_protocol_version := GNUTLS_TLS1_2\<rparr>"
  let ?s3 = "example_session\<lparr>ses_protocol_version := GNUTLS_TLS1_3\<rparr>"
  note t2 = installed_iv_by_version[OF example_install_run[of GNUTLS_TLS1_2]]
  note t3 = installed_iv_by_version[OF example_install_run[of GNUTLS_TLS1_3]]
  have pre: "accepting_kernel (trace world_init) (gnutls_transport_get_int ?s2) SOL_TCP TCP_ULP
            (Opt_string ''tls'') = None \<and>
          kernel_supported full_build (gnutls_cipher_get ?s2) \<and>
          \<not> tlshd_is_ktls_enabled full_build ?s2 0 \<and>
          fst (ses_record_state ?s2 0) = GNUTLS_E_SUCCESS"
    by (simp add: accepting_kernel_def kernel_supported_def full_build_def gnutls_cipher_get_def
        example_session_def tlshd_is_ktls_enabled_def gnutls_transport_is_ktls_enabled_def
        GNUTLS_KTLS_SEND_def GNUTLS_E_UNIMPLEMENTED_FEATURE_def GNUTLS_E_SUCCESS_def)
  have off1: "(0::int) = 0 \<and> \<not> tlshd_is_ktls_enabled full_build ?s3 1"
    by (simp add: full_build_def example_session_def tlshd_is_ktls_enabled_def
        gnutls_transport_is_ktls_enabled_def GNUTLS_KTLS_RECV_def
        GNUTLS_E_UNIMPLEMENTED_FEATURE_def)
  from t2[THEN conjunct1, rule_format, OF pre] obtain i2 where
    m2: "Ev_setsockopt (ses_transport_send ?s2) SOL_TLS TLS_TX (Opt_crypto_info i2)
           \<in> set (drop (length (trace world_init))
                (trace \<lparr>trace =
        [Ev_setsockopt 3 SOL_TCP TCP_ULP (Opt_string ''tls''),
         Ev_record_get_state 0,
         Ev_setsockopt 3 SOL_TLS TLS_TX
           (Opt_crypto_info (crypto_info_spec GNUTLS_CIPHER_AES_128_GCM GNUTLS_TLS1_2 example_record_state)),
         Ev_record_get_state 1,
         Ev_setsockopt 3 SOL_TLS TLS_RX
           (Opt_crypto_info (crypto_info_spec GNUTLS_CIPHER_AES_128_GCM GNUTLS_TLS1_2 example_record_state))],
      errno = 0, live_priorities = []\<rparr>))"
    by blast
  from t3[THEN conjunct2, THEN conjunct1, rule_format, OF off1] obtain i3 where
    m3: "Ev_setsockopt (ses_transport_recv ?s3) SOL_TLS TLS_RX (Opt_crypto_info i3)
           \<in> set (drop (length (trace world_init))
                (trace \<lparr>trace =
        [Ev_setsockopt 3 SOL_TCP TCP_ULP (Opt_string ''tls''),
         Ev_record_get_state 0,
         Ev_setsockopt 3 SOL_TLS TLS_TX
           (Opt_crypto_info (crypto_info_spec GNUTLS_CIPHER_AES_128_GCM GNUTLS_TLS1_3 example_record_state)),
         Ev_record_get_state 1,
         Ev_setsockopt 3 SOL_TLS TLS_RX
           (Opt_crypto_info (crypto_info_spec GNUTLS_CIPHER_AES_128_GCM GNUTLS_TLS1_3 example_record_state))],
      errno = 0, live_priorities = []\<rparr>))"
    by blast
  from t2[THEN conjunct2, THEN conjunct2, rule_format, of "ses_transport_send ?s2" TLS_TX i2
      "snd (ses_record_state ?s2 0)"] m2
  have f2: "ci_version i2 = TLS_1_2_VERSION \<and> ci_iv i2 = [0, 0, 0, 0, 0, 0, 0, 1]"
    by (simp add: gnutls_cipher_get_def gnutls_protocol_get_version_def example_session_def
        example_record_state_def)
  from t3[THEN conjunct2, THEN conjunct2, rule_format, of "ses_transport_recv ?s3" TLS_RX i3
      "snd (ses_record_state ?s3 1)"] m3
  have f3: "ci_iv i3 = [5, 6, 7, 8, 9, 10, 11, 12]"
    by (simp add: gnutls_cipher_get_def gnutls_protocol_get_version_def example_session_def
        example_record_state_def)
  from m2 have m2': "Ev_setsockopt 3 SOL_TLS TLS_TX (Opt_crypto_info i2) \<in> set
        [Ev_setsockopt 3 SOL_TCP TCP_ULP (Opt_string ''tls''),
         Ev_record_get_state 0,
         Ev_setsockopt 3 SOL_TLS TLS_TX
           (Opt_crypto_info (crypto_info_spec GNUTLS_CIPHER_AES_128_GCM GNUTLS_TLS1_2 example_record_state)),
         Ev_record_get_state 1,
         Ev_setsockopt 3 SOL_TLS TLS_RX
           (Opt_crypto_info (crypto_info_spec GNUTLS_CIPHER_AES_128_GCM GNUTLS_TLS1_2 example_record_state))]"
    by (simp add: world_init_def example_session_def)
  from m3 have m3': "Ev_setsockopt 3 SOL_TLS TLS_RX (Opt_crypto_info i3) \<in> set
        [Ev_setsockopt 3 SOL_TCP TCP_ULP (Opt_string ''tls''),
         Ev_record_get_state 0,
         Ev_setsockopt 3 SOL_TLS TLS_TX
           (Opt_crypto_info (crypto_info_spec GNUTLS_CIPHER_AES_128_GCM GNUTLS_TLS1_3 example_record_state)),
         Ev_record_get_state 1,
         Ev_setsockopt 3 SOL_TLS TLS_RX
           (Opt_crypto_info (crypto_info_spec GNUTLS_CIPHER_AES_128_GCM GNUTLS_TLS1_3 example_record_state))]"
    by (simp add: world_init_def example_session_def)
  have a2: "\<exists>ret w' info.
      tlshd_initialize_ktls full_build accepting_kernel ?s2 world_init = Some (ret, w') \<and>
      Ev_setsockopt 3 SOL_TLS TLS_TX (Opt_crypto_info info) \<in> set (trace w') \<and>
      ci_version info = TLS_1_2_VERSION \<and>
      ci_iv info = [0, 0, 0, 0, 0, 0, 0, 1]"
    using m2' f2 unfolding example_install_run[of GNUTLS_TLS1_2]
    by simp
  have a3: "\<exists>ret w' info.
      tlshd_initialize_ktls full_build accepting_kernel ?s3 world_init = Some (ret, w') \<and>
      Ev_setsockopt 3 SOL_TLS TLS_RX (Opt_crypto_info info) \<in> set (trace w') \<and>
      ci_iv info = [5, 6, 7, 8, 9, 10, 11, 12]"
    using m3' f3 unfolding example_install_run[of GNUTLS_TLS1_3]
    by simp
  from a2 a3 show ?thesis by (rule conjI)
qed

subsection \<open>The priority strings\<close>

declare emit_ciphers.simps [simp del]

lemma emit_cipher_string_token:
  "emit_cipher_string cfg p c =
     (if kernel_supported cfg c then strcat p (cipher_token c) else Some p)"
  by (cases c) (auto simp: emit_cipher_string_def kernel_supported_def)

lemma cipher_segment_Cons:
  "cipher_segment cfg (c # cs) =
     (if kernel_supported cfg c then cipher_token c else []) @ cipher_segment cfg cs"
  by (simp add: cipher_segment_def)

lemma emit_ciphers_result:
  assumes "i \<le> length cs" and "length p + 1 \<le> pstring_size"
  shows "emit_ciphers cfg cs (int (length cs)) i p =
           (if length p + length (cipher_segment cfg (drop i cs)) + 1 \<le> pstring_size
            then Some (p @ cipher_segment cfg (drop i cs)) else None)"
  using assms
proof (induction cfg cs "int (length cs)" i p rule: emit_ciphers.induct)
  case (1 cfg ciphers i pstring)
  show ?case
  proof (cases "i < length ciphers")
    case False
    with 1(2) have "i = length ciphers" by simp
    then show ?thesis
      using 1(3) by (subst emit_ciphers.simps) (simp add: cipher_segment_def)
  next
    case True
    then have dr: "drop i ciphers = ciphers ! i # drop (Suc i) ciphers"
      by (simp add: Cons_nth_drop_Suc)
    show ?thesis
    proof (cases "emit_cipher_string cfg pstring (ciphers ! i)")
      case None
      then have "kernel_supported cfg (ciphers ! i)"
        and "\<not> length pstring + length (cipher_token (ciphers ! i)) + 1 \<le> pstring_size"
        by (auto simp: emit_cipher_string_token strcat_def split: if_splits)
      then have "\<not> length pstring + length (cipher_segment cfg (drop i ciphers)) + 1 \<le> pstring_size"
        by (simp add: dr cipher_segment_Cons)
      with None True show ?thesis
        by (subst emit_ciphers.simps) simp
    next
      case (Some p1)
      then have p1: "p1 = pstring @ (if kernel_supported cfg (ciphers ! i)
                                     then cipher_token (ciphers ! i) else [])"
        by (auto simp: emit_cipher_string_token strcat_def split: if_splits)
      have ih: "emit_ciphers cfg ciphers (int (length ciphers)) (Suc i) p1 =
           (if length p1 + length (cipher_segment cfg (drop (Suc i) ciphers)) + 1 \<le> pstring_size
            then Some (p1 @ cipher_segment cfg (drop (Suc i) ciphers)) else None)"
      proof (rule 1(1)[OF _ True Some])
        show "int i < int (length ciphers)" using True by simp
        show "Suc i \<le> length ciphers" using True by simp
        show "length p1 + 1 \<le> pstring_size"
          using Some 1(3) by (auto simp: emit_cipher_string_token strcat_def split: if_splits)
      qed
      have "emit_ciphers cfg ciphers (int (length ciphers)) i pstring =
            emit_ciphers cfg ciphers (int (length ciphers)) (Suc i) p1"
        using True Some by (subst emit_ciphers.simps) simp
      also note ih
      also have "(if length p1 + length (cipher_segment cfg (drop (Suc i) ciphers)) + 1 \<le> pstring_size
            then Some (p1 @ cipher_segment cfg (drop (Suc i) ciphers)) else None) =
           (if length pstring + length (cipher_segment cfg (drop i ciphers)) + 1 \<le> pstring_size
            then Some (pstring @ cipher_segment cfg (drop i ciphers)) else None)"
        by (simp add: p1 dr cipher_segment_Cons)
      finally show ?thesis .
    qed
  qed
qed

lemma cipher_segment_distinct_bound:
  assumes "distinct cs"
  shows "length (cipher_segment cfg cs) \<le> 58"
proof -
  let ?S = "{GNUTLS_CIPHER_AES_128_GCM, GNUTLS_CIPHER_AES_256_GCM, GNUTLS_CIPHER_AES_128_CCM,
             GNUTLS_CIPHER_CHACHA20_POLY1305}"
  let ?xs = "filter (kernel_supported cfg) cs"
  have d: "distinct ?xs" using assms by simp
  have sub: "set ?xs \<subseteq> ?S" by (auto simp: kernel_supported_def)
  have "length (cipher_segment cfg cs) = sum_list (map (\<lambda>c. length (cipher_token c)) ?xs)"
    by (simp add: cipher_segment_def length_concat comp_def)
  also have "\<dots> = sum (\<lambda>c. length (cipher_token c)) (set ?xs)"
    using d by (rule sum_list_distinct_conv_sum_set)
  also have "\<dots> \<le> sum (\<lambda>c. length (cipher_token c)) ?S"
    by (rule sum_mono2) (use sub in auto)
  also have "\<dots> = 58" by simp
  finally show ?thesis .
qed


lemma priority_prefix_length: "length priority_prefix = 77"
  by (simp add: priority_prefix_def)

text \<open>The strings fit the buffer when the cipher segment has at most 921 characters:
  77 for the prefix, 25 for the PSK suffix and one for the terminating NUL are then within
  1024. A list without repetition stays far below, by \<open>cipher_segment_distinct_bound\<close>.\<close>

lemma emit_ciphers_fits:
  assumes "length (cipher_segment cfg cs) \<le> 921"
  shows "emit_ciphers cfg cs (int (length cs)) 0 priority_prefix =
           Some (priority_prefix @ cipher_segment cfg cs)"
  using emit_ciphers_result[of 0 cs priority_prefix cfg] assms
  by (simp add: pstring_size_def priority_prefix_length)

lemma strcat_psk_fits:
  assumes "length (cipher_segment cfg cs) \<le> 921"
  shows "strcat (priority_prefix @ cipher_segment cfg cs) '':+PSK:+DHE-PSK:+ECDHE-PSK'' =
           Some (priority_prefix @ cipher_segment cfg cs @ '':+PSK:+DHE-PSK:+ECDHE-PSK'')"
  using assms
  by (simp add: strcat_def pstring_size_def priority_prefix_length)

lemma priority_init_unfold:
  assumes base: "lib_priority_init lib None = GNUTLS_E_SUCCESS"
      and list: "lib_priority_cipher_list lib = (int (length cs), cs)"
      and em: "emit_ciphers cfg cs (int (length cs)) 0 priority_prefix = Some normal"
      and psk: "strcat normal '':+PSK:+DHE-PSK:+ECDHE-PSK'' = Some pskstr"
  shows "tlshd_gnutls_priority_init cfg lib g w =
     (let h = length (trace w);
          w1 = w\<lparr>trace := trace w @ [Ev_priority_init None GNUTLS_E_SUCCESS],
                 live_priorities := h # live_priorities w\<rparr>;
          w2 = gnutls_priority_deinit (Some h) w1;
          (ret, p, w3) = gnutls_priority_init lib (Some normal) w2;
          g2 = g\<lparr>tlshd_gnutls_priority := p\<rparr>
      in if ret \<noteq> GNUTLS_E_SUCCESS then Some (- EIO, g2, w3)
         else
           (let (ret, p, w4) = gnutls_priority_init lib (Some pskstr) w3;
                g3 = g2\<lparr>tlshd_gnutls_priority_psk := p\<rparr>
            in if ret \<noteq> GNUTLS_E_SUCCESS
               then Some (- EIO, g3, gnutls_priority_deinit (tlshd_gnutls_priority g3) w4)
               else Some (0, g3, w4)))"
proof -
  have hd: "strcat [] ''SECURE256:+SECURE128:-COMP-ALL'' = Some ''SECURE256:+SECURE128:-COMP-ALL''"
    "strcat ''SECURE256:+SECURE128:-COMP-ALL'' '':-VERS-ALL:+VERS-TLS1.3:%NO_TICKETS'' =
       Some ''SECURE256:+SECURE128:-COMP-ALL:-VERS-ALL:+VERS-TLS1.3:%NO_TICKETS''"
    "strcat ''SECURE256:+SECURE128:-COMP-ALL:-VERS-ALL:+VERS-TLS1.3:%NO_TICKETS'' '':-CIPHER-ALL'' =
       Some priority_prefix"
    by (simp_all add: strcat_def pstring_size_def priority_prefix_def)
  show ?thesis
    unfolding tlshd_gnutls_priority_init_def
    by (simp add: gnutls_priority_init_def[of lib None] base list gnutls_priority_cipher_list_def
        hd em psk Let_def GNUTLS_E_SUCCESS_def split: prod.splits)
qed


text \<open>Claim C5. For every cipher list of the library (an array with its length as the
  return value) whose tokens fit the buffer, the priority string the program compiles is
  the fixed prefix followed by the tokens of exactly those ciphers of the list that the
  kernel offload supports in this build, in the order of the list. When all four macros
  are defined, the supported set is AES-128-GCM, AES-256-GCM, AES-128-CCM and
  ChaCha20-Poly1305.\<close>

theorem priority_string_cipher_segment:
  assumes base: "lib_priority_init lib None = GNUTLS_E_SUCCESS"
      and list: "lib_priority_cipher_list lib = (int (length cs), cs)"
      and fits: "length (cipher_segment cfg cs) \<le> 921"
  shows "(\<exists>ret g' w' evs.
            tlshd_gnutls_priority_init cfg lib g w = Some (ret, g', w') \<and>
            trace w' =
              trace w @
              [Ev_priority_init None GNUTLS_E_SUCCESS,
               Ev_priority_deinit (length (trace w)),
               Ev_priority_init
                 (Some (priority_prefix @
                        concat (map cipher_token (filter (kernel_supported cfg) cs))))
                 (lib_priority_init lib
                    (Some (priority_prefix @
                           concat (map cipher_token (filter (kernel_supported cfg) cs)))))] @
              evs) \<and>
         (kernel_supported full_build c \<longleftrightarrow>
            c \<in> {GNUTLS_CIPHER_AES_128_GCM, GNUTLS_CIPHER_AES_256_GCM,
                  GNUTLS_CIPHER_AES_128_CCM, GNUTLS_CIPHER_CHACHA20_POLY1305})"
proof -
  let ?normal = "priority_prefix @ cipher_segment cfg cs"
  let ?psk = "priority_prefix @ cipher_segment cfg cs @ '':+PSK:+DHE-PSK:+ECDHE-PSK''"
  note unf = priority_init_unfold[OF base list emit_ciphers_fits[OF fits]
      strcat_psk_fits[OF fits], of g w]
  have "\<exists>ret g' w' evs.
            tlshd_gnutls_priority_init cfg lib g w = Some (ret, g', w') \<and>
            trace w' =
              trace w @
              [Ev_priority_init None GNUTLS_E_SUCCESS,
               Ev_priority_deinit (length (trace w)),
               Ev_priority_init (Some ?normal) (lib_priority_init lib (Some ?normal))] @ evs"
  proof (cases "lib_priority_init lib (Some ?normal) = GNUTLS_E_SUCCESS")
    case False
    then show ?thesis
      unfolding unf
      by (simp add: gnutls_priority_init_def gnutls_priority_deinit_def Let_def)
  next
    case True
    then show ?thesis
      unfolding unf
      by (cases "lib_priority_init lib (Some ?psk) = GNUTLS_E_SUCCESS")
         (simp_all add: gnutls_priority_init_def gnutls_priority_deinit_def Let_def)
  qed
  then show ?thesis
    by (auto simp: cipher_segment_def kernel_supported_def full_build_def)
qed

theorem priority_string_cipher_segment_witness:
  "\<exists>ret g' w' evs.
     tlshd_gnutls_priority_init full_build
       \<lparr>lib_priority_init = (\<lambda>s. 0),
        lib_priority_cipher_list =
          (4, [GNUTLS_CIPHER_OTHER 5, GNUTLS_CIPHER_AES_256_GCM, GNUTLS_CIPHER_OTHER 20,
               GNUTLS_CIPHER_CHACHA20_POLY1305])\<rparr>
       \<lparr>tlshd_gnutls_priority = None, tlshd_gnutls_priority_psk = None\<rparr> world_init =
       Some (ret, g', w') \<and>
     trace w' =
       [Ev_priority_init None 0, Ev_priority_deinit 0,
        Ev_priority_init
          (Some ''SECURE256:+SECURE128:-COMP-ALL:-VERS-ALL:+VERS-TLS1.3:%NO_TICKETS:-CIPHER-ALL:+AES-256-GCM:+CHACHA20-POLY1305'')
          0] @ evs"
  using priority_string_cipher_segment[of
      "\<lparr>lib_priority_init = (\<lambda>s. 0),
        lib_priority_cipher_list =
          (4, [GNUTLS_CIPHER_OTHER 5, GNUTLS_CIPHER_AES_256_GCM, GNUTLS_CIPHER_OTHER 20,
               GNUTLS_CIPHER_CHACHA20_POLY1305])\<rparr>"
      "[GNUTLS_CIPHER_OTHER 5, GNUTLS_CIPHER_AES_256_GCM, GNUTLS_CIPHER_OTHER 20,
               GNUTLS_CIPHER_CHACHA20_POLY1305]"
      full_build "\<lparr>tlshd_gnutls_priority = None, tlshd_gnutls_priority_psk = None\<rparr>"
      world_init]
  by (simp add: GNUTLS_E_SUCCESS_def kernel_supported_def full_build_def priority_prefix_def
      world_init_def cipher_segment_def)

text \<open>A failing enumeration, for any library and state: when
  \<^verbatim>\<open>gnutls_priority_cipher_list\<close> returns a negative value, the function returns
  \<open>- EIO\<close> with the base object still allocated and no \<^verbatim>\<open>gnutls_priority_deinit\<close>
  in the trace.\<close>

lemma priority_init_enumeration_failure:
  assumes "lib_priority_init lib None = GNUTLS_E_SUCCESS"
      and "fst (lib_priority_cipher_list lib) < 0"
  shows "tlshd_gnutls_priority_init cfg lib g w =
           Some (- EIO, g\<lparr>tlshd_gnutls_priority := Some (length (trace w))\<rparr>,
                 w\<lparr>trace := trace w @ [Ev_priority_init None GNUTLS_E_SUCCESS],
                   live_priorities := length (trace w) # live_priorities w\<rparr>)"
  using assms
  by (cases "lib_priority_cipher_list lib")
     (simp add: tlshd_gnutls_priority_init_def gnutls_priority_init_def
      gnutls_priority_cipher_list_def Let_def)

text \<open>Claim C4 at a concrete input: the default priority object is allocated (handle 0),
  the enumeration returns \<open>- 1\<close>; the result is \<open>- EIO\<close>, handle 0 is still live and
  the only event is the allocation.\<close>

theorem priority_init_leaks_base_object:
  "tlshd_gnutls_priority_init full_build
     \<lparr>lib_priority_init = (\<lambda>s. 0), lib_priority_cipher_list = (- 1, [])\<rparr>
     \<lparr>tlshd_gnutls_priority = None, tlshd_gnutls_priority_psk = None\<rparr> world_init =
   Some (- EIO, \<lparr>tlshd_gnutls_priority = Some 0, tlshd_gnutls_priority_psk = None\<rparr>,
         \<lparr>trace = [Ev_priority_init None 0], errno = 0, live_priorities = [0]\<rparr>)"
  by (simp add: tlshd_gnutls_priority_init_def gnutls_priority_init_def
      gnutls_priority_cipher_list_def Let_def GNUTLS_E_SUCCESS_def world_init_def)

text \<open>The sibling failure paths do release it: when a compilation of the normal or of
  the PSK string fails, no priority object allocated by the function stays live.\<close>

lemma priority_init_compile_failure_releases:
  assumes base: "lib_priority_init lib None = GNUTLS_E_SUCCESS"
      and list: "lib_priority_cipher_list lib = (int (length cs), cs)"
      and fits: "length (cipher_segment cfg cs) \<le> 921"
      and run: "tlshd_gnutls_priority_init cfg lib g w = Some (ret, g', w')"
      and fail: "ret \<noteq> 0"
  shows "set (live_priorities w') \<subseteq> set (live_priorities w) - {length (trace w)}"
proof -
  let ?normal = "priority_prefix @ cipher_segment cfg cs"
  let ?psk = "priority_prefix @ cipher_segment cfg cs @ '':+PSK:+DHE-PSK:+ECDHE-PSK''"
  note unf = priority_init_unfold[OF base list emit_ciphers_fits[OF fits]
      strcat_psk_fits[OF fits], of g w]
  show ?thesis
  proof (cases "lib_priority_init lib (Some ?normal) = GNUTLS_E_SUCCESS")
    case False
    with run show ?thesis
      unfolding unf
      by (auto simp: gnutls_priority_init_def gnutls_priority_deinit_def Let_def)
  next
    case True
    with run fail show ?thesis
      unfolding unf
      by (cases "lib_priority_init lib (Some ?psk) = GNUTLS_E_SUCCESS")
         (auto simp: gnutls_priority_init_def gnutls_priority_deinit_def Let_def)
  qed
qed

subsection \<open>The peer-identity loop of the verification callback\<close>

declare peerid_loop.simps [simp del]

lemma peerid_loop_num:
  "tlshd_num_remote_peerids (peerid_loop e h certs i g) = tlshd_num_remote_peerids g"
proof (induction e h certs i g rule: peerid_loop.induct)
  case (1 e h certs i g)
  show ?case
  proof (cases "i < tlshd_num_remote_peerids g")
    case True
    with 1 show ?thesis by (subst peerid_loop.simps) simp
  next
    case False
    then show ?thesis by (subst peerid_loop.simps) simp
  qed
qed

lemma peerid_loop_array:
  assumes "tlshd_num_remote_peerids g \<le> length (tlshd_remote_peerid g)"
      and "tlshd_num_remote_peerids g \<le> length certs"
      and "i \<le> tlshd_num_remote_peerids g"
  shows "tlshd_remote_peerid (peerid_loop e h certs i g) =
           take i (tlshd_remote_peerid g) @
           map (\<lambda>c. env_keyring_create_cert e c h)
             (take (tlshd_num_remote_peerids g - i) (drop i certs)) @
           drop (tlshd_num_remote_peerids g) (tlshd_remote_peerid g)"
  using assms
proof (induction e h certs i g rule: peerid_loop.induct)
  case (1 e h certs i g)
  let ?n = "tlshd_num_remote_peerids g"
  let ?a = "tlshd_remote_peerid g"
  show ?case
  proof (cases "i < ?n")
    case False
    with 1(4) have "i = ?n" by simp
    then show ?thesis by (subst peerid_loop.simps) simp
  next
    case True
    let ?v = "env_keyring_create_cert e (certs ! i) h"
    let ?g = "g\<lparr>tlshd_remote_peerid := ?a[i := ?v]\<rparr>"
    have ih: "tlshd_remote_peerid (peerid_loop e h certs (Suc i) ?g) =
           take (Suc i) (?a[i := ?v]) @
           map (\<lambda>c. env_keyring_create_cert e c h) (take (?n - Suc i) (drop (Suc i) certs)) @
           drop ?n (?a[i := ?v])"
      using 1(1)[OF True] 1(2,3) True by simp
    have il: "i < length ?a" and ic: "i < length certs" using True 1(2,3) by auto
    have t1: "take (Suc i) (?a[i := ?v]) = take i ?a @ [?v]"
      using il by (simp add: take_Suc_conv_app_nth)
    have t2: "drop ?n (?a[i := ?v]) = drop ?n ?a"
      using True by simp
    have t3: "take (?n - i) (drop i certs) = certs ! i # take (?n - Suc i) (drop (Suc i) certs)"
      using True ic by (metis Cons_nth_drop_Suc Suc_diff_Suc take_Suc_Cons)
    show ?thesis
      by (subst peerid_loop.simps) (simp add: True ih t1 t2 t3)
  qed
qed

lemma verify_function_verified:
  assumes "ses_verify_peers3 session = (GNUTLS_E_SUCCESS, 0)"
      and "ses_peers session = Some certs"
  shows "tlshd_server_x509_verify_function e session g =
           (if certs = [] then (GNUTLS_E_CERTIFICATE_ERROR, g\<lparr>tlshd_num_remote_peerids := 0\<rparr>)
            else (GNUTLS_E_SUCCESS,
                  peerid_loop e (ses_ptr session) certs 0
                    (g\<lparr>tlshd_num_remote_peerids := min (length certs) ARRAY_SIZE_tlshd_remote_peerid\<rparr>)))"
  using assms
  by (simp add: tlshd_server_x509_verify_function_def gnutls_certificate_verify_peers3_def
      gnutls_certificate_get_peers_def gnutls_session_get_ptr_def Let_def min_def)

text \<open>Claim C6. When the chain of the peer verified with a clean status and the peer
  offered \<open>n\<close> certificates, the callback records \<open>min n 10\<close> identities: the count is
  \<open>min n 10\<close> and the PeerIdentityList holds the keyring serials of the first ten
  certificates, in order. More than ten certificates are cut to ten without an error: for
  every non-empty list the callback returns success.\<close>

theorem peer_identity_list_truncated:
  assumes "ses_verify_peers3 session = (GNUTLS_E_SUCCESS, 0)"
      and "ses_peers session = Some certs"
      and "length (tlshd_remote_peerid g) = ARRAY_SIZE_tlshd_remote_peerid"
  shows "tlshd_num_remote_peerids (snd (tlshd_server_x509_verify_function e session g)) =
           min (length certs) 10 \<and>
         peer_identity_list (snd (tlshd_server_x509_verify_function e session g)) =
           map (\<lambda>c. env_keyring_create_cert e c (ses_ptr session)) (take 10 certs) \<and>
         (certs \<noteq> [] \<longrightarrow>
            fst (tlshd_server_x509_verify_function e session g) = GNUTLS_E_SUCCESS)"
proof (cases "certs = []")
  case True
  then show ?thesis
    by (simp add: verify_function_verified[OF assms(1,2)] peer_identity_list_def)
next
  case False
  let ?g = "g\<lparr>tlshd_num_remote_peerids := min (length certs) 10\<rparr>"
  let ?g' = "peerid_loop e (ses_ptr session) certs 0 ?g"
  have vf: "tlshd_server_x509_verify_function e session g = (GNUTLS_E_SUCCESS, ?g')"
    using False
    by (simp add: verify_function_verified[OF assms(1,2)] ARRAY_SIZE_tlshd_remote_peerid_def)
  have arr: "tlshd_remote_peerid ?g' =
      map (\<lambda>c. env_keyring_create_cert e c (ses_ptr session)) (take (min (length certs) 10) certs) @
      drop (min (length certs) 10) (tlshd_remote_peerid g)"
    using assms(3)
    by (subst peerid_loop_array) (simp_all add: ARRAY_SIZE_tlshd_remote_peerid_def)
  have tk: "take (min (length certs) 10) certs = take 10 certs"
    by (simp add: min_def)
  have num: "tlshd_num_remote_peerids ?g' = min (length certs) 10"
    by (simp add: peerid_loop_num)
  have "peer_identity_list ?g' =
      map (\<lambda>c. env_keyring_create_cert e c (ses_ptr session)) (take 10 certs)"
    unfolding peer_identity_list_def num arr tk by simp
  with num show ?thesis
    by (simp add: vf)
qed

theorem peer_identity_list_truncated_witness:
  "tlshd_num_remote_peerids
     (snd (tlshd_server_x509_verify_function example_env
        (example_session\<lparr>ses_peers := Some (replicate 15 [48])\<rparr>) server_globals_init)) = 10 \<and>
   peer_identity_list
     (snd (tlshd_server_x509_verify_function example_env
        (example_session\<lparr>ses_peers := Some (replicate 15 [48])\<rparr>) server_globals_init)) =
     replicate 10 1001 \<and>
   fst (tlshd_server_x509_verify_function example_env
        (example_session\<lparr>ses_peers := Some (replicate 15 [48])\<rparr>) server_globals_init) =
     GNUTLS_E_SUCCESS"
  using peer_identity_list_truncated[of "example_session\<lparr>ses_peers := Some (replicate 15 [48])\<rparr>"
      "replicate 15 [48]" server_globals_init example_env]
  by (simp add: example_session_def server_globals_init_def GNUTLS_E_SUCCESS_def
      example_env_def ARRAY_SIZE_tlshd_remote_peerid_def)

text \<open>Claim C10. If chain verification succeeds with status 0 but the certificate list
  the library hands out is NULL or has no entry, the verification callback returns
  \<open>GNUTLS_E_CERTIFICATE_ERROR\<close>, which is not success; if the library reports that the
  peer offered no certificate at all, the callback returns success.\<close>

theorem empty_peer_list_is_certificate_error:
  "(ses_verify_peers3 session = (GNUTLS_E_SUCCESS, 0) \<and>
      (ses_peers session = None \<or> ses_peers session = Some []) \<longrightarrow>
      fst (tlshd_server_x509_verify_function e session g) = GNUTLS_E_CERTIFICATE_ERROR \<and>
      GNUTLS_E_CERTIFICATE_ERROR \<noteq> GNUTLS_E_SUCCESS) \<and>
   (fst (ses_verify_peers3 session) = GNUTLS_E_NO_CERTIFICATE_FOUND \<longrightarrow>
      fst (tlshd_server_x509_verify_function e session g) = GNUTLS_E_SUCCESS)"
  by (auto simp: tlshd_server_x509_verify_function_def gnutls_certificate_verify_peers3_def
      gnutls_certificate_get_peers_def GNUTLS_E_SUCCESS_def GNUTLS_E_NO_CERTIFICATE_FOUND_def
      GNUTLS_E_CERTIFICATE_ERROR_def Let_def split: prod.splits option.splits)

theorem empty_peer_list_is_certificate_error_witness:
  "fst (tlshd_server_x509_verify_function example_env
          (example_session\<lparr>ses_peers := Some []\<rparr>) server_globals_init) = - 43 \<and>
   fst (tlshd_server_x509_verify_function example_env
          (example_session\<lparr>ses_peers := None\<rparr>) server_globals_init) = - 43 \<and>
   fst (tlshd_server_x509_verify_function example_env
          (example_session\<lparr>ses_verify_peers3 := (- 49, 0)\<rparr>) server_globals_init) = 0"
  using empty_peer_list_is_certificate_error[of "example_session\<lparr>ses_peers := Some []\<rparr>"
      example_env server_globals_init]
    empty_peer_list_is_certificate_error[of "example_session\<lparr>ses_peers := None\<rparr>"
      example_env server_globals_init]
    empty_peer_list_is_certificate_error[of "example_session\<lparr>ses_verify_peers3 := (- 49, 0)\<rparr>"
      example_env server_globals_init]
  by (simp add: example_session_def GNUTLS_E_SUCCESS_def GNUTLS_E_NO_CERTIFICATE_FOUND_def
      GNUTLS_E_CERTIFICATE_ERROR_def)

subsection \<open>The server handshakes\<close>

lemma peerid_loop_length:
  "length (tlshd_remote_peerid (peerid_loop e h certs i g)) = length (tlshd_remote_peerid g)"
proof (induction e h certs i g rule: peerid_loop.induct)
  case (1 e h certs i g)
  show ?case
  proof (cases "i < tlshd_num_remote_peerids g")
    case True
    with 1 show ?thesis by (subst peerid_loop.simps) simp
  next
    case False
    then show ?thesis by (subst peerid_loop.simps) simp
  qed
qed

lemma verify_function_wf:
  assumes "peerids_wf g"
  shows "peerids_wf (snd (tlshd_server_x509_verify_function e session g))"
  using assms
  by (cases "ses_verify_peers3 session")
     (auto simp: tlshd_server_x509_verify_function_def gnutls_certificate_verify_peers3_def
      gnutls_certificate_get_peers_def Let_def peerids_wf_def peerid_loop_length peerid_loop_num
      ARRAY_SIZE_tlshd_remote_peerid_def split: option.splits)

lemma psk_cb_wf:
  assumes "peerids_wf g"
  shows "peerids_wf (fst (snd (snd (tlshd_server_psk_cb e session u g w))))"
  using assms
  by (auto simp: tlshd_server_psk_cb_def Let_def peerids_wf_def ARRAY_SIZE_tlshd_remote_peerid_def
      split: option.splits)

lemma gnutls_handshake_wf:
  assumes "peerids_wf g"
  shows "peerids_wf (fst (snd (gnutls_handshake e session g w)))"
proof -
  note v = verify_function_wf[OF assms, of e session]
  note p = psk_cb_wf[OF assms, of e session "env_peer_username e" "emit Ev_gnutls_handshake w"]
  show ?thesis
    using assms v p
    by (auto simp: gnutls_handshake_def Let_def split: option.splits prod.splits
        gnutls_credentials_type_t.splits)
qed

lemma start_tls_handshake_wf:
  assumes "peerids_wf g" and "tlshd_start_tls_handshake e session parms g w = Some (g', w')"
  shows "peerids_wf g'"
proof -
  obtain ret s2 where ps: "tlshd_gnutls_priority_set e (gnutls_transport_set_int session (sockfd parms)) parms = (ret, s2)"
    by (cases "tlshd_gnutls_priority_set e (gnutls_transport_set_int session (sockfd parms)) parms")
  note h = gnutls_handshake_wf[OF assms(1), of e s2 w]
  show ?thesis
    using assms h ps
    by (auto simp: tlshd_start_tls_handshake_def Let_def split: if_splits prod.splits option.splits)
qed


lemma get_cert_wf:
  "peerids_wf g \<Longrightarrow> peerids_wf (snd (tlshd_x509_server_get_cert e parms g))"
  by (auto simp: tlshd_x509_server_get_cert_def peerids_wf_def split: option.splits)

lemma get_privkey_wf:
  "peerids_wf g \<Longrightarrow> peerids_wf (snd (tlshd_x509_server_get_privkey e parms g))"
  by (auto simp: tlshd_x509_server_get_privkey_def peerids_wf_def split: option.splits)

lemma server_x509_handshake_wf:
  assumes "peerids_wf g" and "tlshd_server_x509_handshake e parms g w = Some (g', w')"
  shows "peerids_wf g'"
proof -
  let ?g1 = "snd (tlshd_x509_server_get_cert e parms g)"
  let ?g2 = "snd (tlshd_x509_server_get_privkey e parms ?g1)"
  have w1: "peerids_wf ?g1" by (rule get_cert_wf[OF assms(1)])
  have w2: "peerids_wf ?g2" by (rule get_privkey_wf[OF w1])
  show ?thesis
    using assms w1 w2
    by (auto simp: tlshd_server_x509_handshake_def Let_def
        split: if_splits prod.splits option.splits dest: start_tls_handshake_wf[rotated])
qed

lemma server_psk_handshake_wf:
  assumes "peerids_wf g" and "tlshd_server_psk_handshake e parms g w = Some (g', w')"
  shows "peerids_wf g'"
  using assms
  by (auto simp: tlshd_server_psk_handshake_def Let_def
      split: if_splits prod.splits option.splits dest: start_tls_handshake_wf[rotated])

lemma peer_identity_list_empty_iff:
  assumes "peerids_wf g"
  shows "peer_identity_list g = [] \<longleftrightarrow> tlshd_num_remote_peerids g = 0"
    and "length (peer_identity_list g) = tlshd_num_remote_peerids g"
  using assms
  by (auto simp: peer_identity_list_def peerids_wf_def ARRAY_SIZE_tlshd_remote_peerid_def)

text \<open>Claim C9. Started with no identity recorded (the statics of a fresh process), the
  entry point leaves the parameters with the recorded identities exactly when there is
  one: if the PeerIdentityList is not empty at the end, \<open>num_remote_peerids\<close> is its
  length and \<open>remote_peerid\<close> starts with it; if it is empty, both fields are the
  caller's.\<close>

theorem peerids_reported_iff_recorded:
  assumes zero: "tlshd_num_remote_peerids g = 0"
      and size: "length (tlshd_remote_peerid g) = ARRAY_SIZE_tlshd_remote_peerid"
      and run: "tlshd_serverhello_handshake e parms g w = Some (parms', g', w')"
  shows "(peer_identity_list g' \<noteq> [] \<longrightarrow>
            num_remote_peerids parms' = length (peer_identity_list g') \<and>
            take (num_remote_peerids parms') (remote_peerid parms') = peer_identity_list g') \<and>
         (peer_identity_list g' = [] \<longrightarrow>
            num_remote_peerids parms' = num_remote_peerids parms \<and>
            remote_peerid parms' = remote_peerid parms)"
proof -
  have wf: "peerids_wf g" using zero size by (simp add: peerids_wf_def)
  show ?thesis
  proof (cases "env_global_init e \<noteq> GNUTLS_E_SUCCESS")
    case True
    with run have "parms' = parms" "g' = g"
      by (simp_all add: tlshd_serverhello_handshake_def)
    with zero show ?thesis
      by (simp add: peer_identity_list_def)
  next
    case False
    with run have p: "parms' = (if tlshd_num_remote_peerids g' \<noteq> 0
                   then parms\<lparr>num_remote_peerids := tlshd_num_remote_peerids g',
                              remote_peerid := tlshd_remote_peerid g'\<rparr>
                   else parms)"
      and sub: "(case auth_mode parms of
                 HANDSHAKE_AUTH_X509 \<Rightarrow> tlshd_server_x509_handshake e parms g w
               | HANDSHAKE_AUTH_PSK \<Rightarrow> tlshd_server_psk_handshake e parms g w
               | HANDSHAKE_AUTH_OTHER n \<Rightarrow> Some (g, w)) = Some (g', w')"
      by (auto simp: tlshd_serverhello_handshake_def split: option.splits)
    have wf': "peerids_wf g'"
      using sub wf
      by (cases "auth_mode parms")
         (auto dest: server_x509_handshake_wf[rotated] server_psk_handshake_wf[rotated])
    show ?thesis
      using peer_identity_list_empty_iff[OF wf'] p
      by (auto simp: peer_identity_list_def)
  qed
qed

subsection \<open>Runs of the entry point\<close>

lemmas handshake_defs =
  tlshd_serverhello_handshake_def tlshd_server_x509_handshake_def tlshd_server_psk_handshake_def
  tlshd_start_tls_handshake_def gnutls_handshake_def tlshd_gnutls_priority_set_def
  tlshd_x509_server_get_cert_def tlshd_x509_server_get_privkey_def tlshd_x509_retrieve_key_cb_def
  gnutls_credentials_set_def gnutls_certificate_server_set_request_def gnutls_transport_set_int_def
  tlshd_server_psk_cb_def emit_def GNUTLS_E_INSUFFICIENT_CREDENTIALS_def
  GNUTLS_E_CERTIFICATE_ERROR_def

lemmas example_defs =
  example_env_def example_session_def example_parms_def example_record_state_def
  no_certificate_env_def psk_parms_def server_globals_init_def world_init_def full_build_def
  accepting_kernel_def

lemmas install_eval =
  initialize_ktls_unfold setsockopt_cases both_directions_def
  install_direction_spec_def tlshd_setsockopt_def tlshd_is_ktls_enabled_def
  gnutls_transport_is_ktls_enabled_def GNUTLS_KTLS_RECV_def GNUTLS_KTLS_SEND_def
  GNUTLS_E_UNIMPLEMENTED_FEATURE_def record_state_fits_def kernel_supported_def

text \<open>Two runs of the entry point: a client without a certificate leaves the parameters
  as the caller supplied them; a client with two verified certificates has both
  reported.\<close>

lemma no_certificate_run:
  "\<exists>g' w'. tlshd_serverhello_handshake no_certificate_env example_parms server_globals_init
              world_init = Some (example_parms, g', w') \<and>
           peer_identity_list g' = []"
  by (simp add: handshake_defs example_defs install_eval tlshd_server_x509_verify_function_def
      gnutls_certificate_verify_peers3_def gnutls_session_get_ptr_def
      GNUTLS_E_SUCCESS_def GNUTLS_E_NO_CERTIFICATE_FOUND_def Let_def peer_identity_list_def)

lemma two_certificates_run:
  "\<exists>g' w'. tlshd_serverhello_handshake example_env example_parms server_globals_init
              world_init =
              Some (example_parms\<lparr>num_remote_peerids := 2,
                       remote_peerid := [1001, 1001, 0, 0, 0, 0, 0, 0, 0, 0]\<rparr>, g', w') \<and>
           peer_identity_list g' = [1001, 1001]"
  by (simp add: handshake_defs example_defs install_eval tlshd_server_x509_verify_function_def
      gnutls_certificate_verify_peers3_def gnutls_session_get_ptr_def gnutls_certificate_get_peers_def
      GNUTLS_E_SUCCESS_def GNUTLS_E_NO_CERTIFICATE_FOUND_def Let_def peer_identity_list_def
      peerid_loop.simps ARRAY_SIZE_tlshd_remote_peerid_def numeral_eq_Suc)


theorem peerids_reported_iff_recorded_witness:
  "(\<exists>parms' g' w'.
      tlshd_serverhello_handshake no_certificate_env example_parms server_globals_init world_init =
        Some (parms', g', w') \<and>
      peer_identity_list g' = [] \<and>
      num_remote_peerids parms' = num_remote_peerids example_parms \<and>
      remote_peerid parms' = remote_peerid example_parms) \<and>
   (\<exists>parms' g' w'.
      tlshd_serverhello_handshake example_env example_parms server_globals_init world_init =
        Some (parms', g', w') \<and>
      peer_identity_list g' = [1001, 1001] \<and>
      num_remote_peerids parms' = 2 \<and>
      take 2 (remote_peerid parms') = [1001, 1001])"
proof -
  have zero: "tlshd_num_remote_peerids server_globals_init = 0"
    and size: "length (tlshd_remote_peerid server_globals_init) = ARRAY_SIZE_tlshd_remote_peerid"
    by (simp_all add: server_globals_init_def)
  from no_certificate_run obtain g1 w1 where
    run1: "tlshd_serverhello_handshake no_certificate_env example_parms server_globals_init
              world_init = Some (example_parms, g1, w1)"
    and l1: "peer_identity_list g1 = []" by blast
  from two_certificates_run obtain g2 w2 where
    run2: "tlshd_serverhello_handshake example_env example_parms server_globals_init
              world_init =
              Some (example_parms\<lparr>num_remote_peerids := 2,
                       remote_peerid := [1001, 1001, 0, 0, 0, 0, 0, 0, 0, 0]\<rparr>, g2, w2)"
    and l2: "peer_identity_list g2 = [1001, 1001]" by blast
  show ?thesis
    using peerids_reported_iff_recorded[OF zero size run1] peerids_reported_iff_recorded[OF zero size run2]
      run1 run2 l1 l2
    by simp
qed

subsection \<open>The PSK handshake when the key search fails\<close>

lemma initialize_ktls_no_search:
  assumes "tlshd_initialize_ktls cfg kern session w = Some (ret, w')"
  shows "\<exists>evs. trace w' = trace w @ evs \<and> (\<forall>u. Ev_keyctl_search u \<notin> set evs) \<and>
           (\<exists>fd level optname optval. Ev_setsockopt fd level optname optval \<in> set evs)"
proof -
  from initialize_ktls_trace[OF assms] obtain evs where
    tr: "trace w' = trace w @ Ev_setsockopt (ses_transport_recv session) SOL_TCP TCP_ULP
                         (Opt_string ''tls'') # evs"
    and sub: "set evs \<subseteq> direction_events session (ses_transport_send session) 0 \<union>
                      direction_events session (ses_transport_recv session) 1"
    by blast
  have "\<forall>u. Ev_keyctl_search u \<notin> set evs"
    using sub by (auto simp: direction_events_def)
  with tr show ?thesis
    by (intro exI[of _ "Ev_setsockopt (ses_transport_recv session) SOL_TCP TCP_ULP
                         (Opt_string ''tls'') # evs"]) auto
qed

lemma server_psk_handshake_cases:
  assumes run: "tlshd_server_psk_handshake e parms g w = Some (g', w')"
  shows "(\<forall>u. Ev_keyctl_search u \<notin> set (drop (length (trace w)) (trace w'))) \<or>
         (env_keyctl_search e (env_peer_username e) < 0 \<and> g' = g \<and>
          trace w' = trace w @
            [Ev_allocate_credentials GNUTLS_CRD_PSK, Ev_gnutls_init, Ev_gnutls_handshake,
             Ev_keyctl_search (env_peer_username e), Ev_gnutls_deinit,
             Ev_free_credentials GNUTLS_CRD_PSK]) \<or>
         (0 \<le> env_keyctl_search e (env_peer_username e) \<and>
          (\<forall>u. Ev_keyctl_search u \<in> set (drop (length (trace w)) (trace w')) \<longrightarrow>
               u = env_peer_username e))"
proof (cases "env_keyctl_search e (env_peer_username e) < 0")
  case True
  with run show ?thesis
    by (cases "env_gnutls_init e")
       (auto simp: handshake_defs Let_def split: if_splits option.splits prod.splits)
next
  case False
  show ?thesis
  proof (cases "env_gnutls_init e")
    case (Pair ret session)
    show ?thesis
      using run False Pair
      by (auto simp: handshake_defs Let_def split: if_splits option.splits prod.splits
          dest!: initialize_ktls_no_search)
  qed
qed


text \<open>When the credentials and the session can be allocated and the library gets as far
  as the PSK callback, a failing search ends the attempt with this trace; the run is
  defined.\<close>

lemma server_psk_handshake_search_fails:
  assumes "env_psk_allocate_server_credentials e = GNUTLS_E_SUCCESS"
      and "fst (env_gnutls_init e) = GNUTLS_E_SUCCESS"
      and "env_priority_set e (tlshd_gnutls_priority_psk (env_priorities e)) = GNUTLS_E_SUCCESS"
      and "auth_mode parms = HANDSHAKE_AUTH_PSK"
      and "0 \<le> env_handshake_hello e"
      and "env_keyctl_search e (env_peer_username e) < 0"
  shows "tlshd_server_psk_handshake e parms g w =
           Some (g, w\<lparr>trace := trace w @
             [Ev_allocate_credentials GNUTLS_CRD_PSK, Ev_gnutls_init, Ev_gnutls_handshake,
              Ev_keyctl_search (env_peer_username e), Ev_gnutls_deinit,
              Ev_free_credentials GNUTLS_CRD_PSK]\<rparr>)"
  using assms
  by (cases "env_gnutls_init e") (simp add: handshake_defs Let_def)

text \<open>Claim C3 as stated fails: the search for the remote's user name happens inside the
  PSK callback, which the library runs during the handshake, so the session exists by
  then. With no key for "alice", the trace has \<open>Ev_gnutls_init\<close> before the search.\<close>

theorem psk_search_failure_counterexample:
  "env_keyctl_search example_env ''alice'' < 0 \<and>
   tlshd_server_psk_handshake example_env psk_parms server_globals_init world_init =
     Some (server_globals_init,
           world_init\<lparr>trace :=
             [Ev_allocate_credentials GNUTLS_CRD_PSK, Ev_gnutls_init, Ev_gnutls_handshake,
              Ev_keyctl_search ''alice'', Ev_gnutls_deinit,
              Ev_free_credentials GNUTLS_CRD_PSK]\<rparr>) \<and>
   Ev_gnutls_init \<in> set (takeWhile ((\<noteq>) (Ev_keyctl_search ''alice''))
     [Ev_allocate_credentials GNUTLS_CRD_PSK, Ev_gnutls_init, Ev_gnutls_handshake,
      Ev_keyctl_search ''alice'', Ev_gnutls_deinit, Ev_free_credentials GNUTLS_CRD_PSK])"
  by (simp add: handshake_defs example_defs Let_def GNUTLS_E_SUCCESS_def)

text \<open>Claim C3, amended. In every server PSK handshake in which the search for the
  remote's claimed user name \<open>u\<close> fails, the attempt ends without a peer identity
  recorded and without a socket-option call; the session, created before the search, is
  destroyed and the credentials are released before the function returns.\<close>

theorem psk_search_failure_aborts_handshake:
  assumes run: "tlshd_server_psk_handshake e parms g w = Some (g', w')"
      and searched: "Ev_keyctl_search u \<in> set (drop (length (trace w)) (trace w'))"
      and failed: "env_keyctl_search e u < 0"
  shows "g' = g \<and>
         trace w' = trace w @
           [Ev_allocate_credentials GNUTLS_CRD_PSK, Ev_gnutls_init, Ev_gnutls_handshake,
            Ev_keyctl_search u, Ev_gnutls_deinit, Ev_free_credentials GNUTLS_CRD_PSK] \<and>
         filter is_setsockopt (drop (length (trace w)) (trace w')) = []"
proof -
  from server_psk_handshake_cases[OF run] searched failed
  have "env_keyctl_search e (env_peer_username e) < 0 \<and> g' = g \<and>
          trace w' = trace w @
            [Ev_allocate_credentials GNUTLS_CRD_PSK, Ev_gnutls_init, Ev_gnutls_handshake,
             Ev_keyctl_search (env_peer_username e), Ev_gnutls_deinit,
             Ev_free_credentials GNUTLS_CRD_PSK]"
    by auto
  moreover from this searched have "u = env_peer_username e" by auto
  ultimately show ?thesis by (simp add: is_setsockopt_def)
qed

theorem psk_search_failure_aborts_handshake_witness:
  "\<exists>g' w'. tlshd_server_psk_handshake example_env psk_parms server_globals_init world_init =
             Some (g', w') \<and>
           g' = server_globals_init \<and>
           trace w' =
             [Ev_allocate_credentials GNUTLS_CRD_PSK, Ev_gnutls_init, Ev_gnutls_handshake,
              Ev_keyctl_search ''alice'', Ev_gnutls_deinit, Ev_free_credentials GNUTLS_CRD_PSK]"
proof -
  let ?w = "world_init\<lparr>trace :=
             [Ev_allocate_credentials GNUTLS_CRD_PSK, Ev_gnutls_init, Ev_gnutls_handshake,
              Ev_keyctl_search ''alice'', Ev_gnutls_deinit,
              Ev_free_credentials GNUTLS_CRD_PSK]\<rparr>"
  have run: "tlshd_server_psk_handshake example_env psk_parms server_globals_init world_init =
     Some (server_globals_init, ?w)"
    by (simp add: handshake_defs example_defs Let_def GNUTLS_E_SUCCESS_def)
  have searched: "Ev_keyctl_search ''alice'' \<in> set (drop (length (trace world_init)) (trace ?w))"
    by (simp add: world_init_def)
  have failed: "env_keyctl_search example_env ''alice'' < 0"
    by (simp add: example_env_def)
  show ?thesis
    using psk_search_failure_aborts_handshake[OF run searched failed] run
    by (simp add: world_init_def)
qed

end
